theory Spec2Isabelle
  imports Complex_Main "HOL-Library.Sublist"
begin

section \<open>Strings and numbers as the TypeScript sources use them\<close>

text \<open>
  Strings are lists of characters. \<open>toLowerCase\<close> is modelled on the ASCII letters
  (the case folding of other letters, which JavaScript also performs, is not modelled),
  \<open>String.prototype.includes\<close> as a search for a contiguous occurrence and
  \<open>startsWith\<close> as the prefix test. A value tested by \<open>!x\<close> or \<open>x || y\<close> is
  falsy when it is \<open>undefined\<close>/\<open>null\<close> (here \<open>None\<close>) or the empty string.
\<close>

definition lower_char :: "char \<Rightarrow> char" where
  "lower_char c =
     (let n = (of_char c :: nat) in if 65 \<le> n \<and> n \<le> 90 then char_of (n + 32) else c)"

definition toLowerCase :: "string \<Rightarrow> string" where
  "toLowerCase s = map lower_char s"

fun str_includes :: "string \<Rightarrow> string \<Rightarrow> bool" where
  "str_includes [] pat = (pat = [])"
| "str_includes (c # cs) pat = (prefix pat (c # cs) \<or> str_includes cs pat)"

definition startsWith :: "string \<Rightarrow> string \<Rightarrow> bool" where
  "startsWith s pat = prefix pat s"

definition truthy :: "string option \<Rightarrow> bool" where
  "truthy v = (case v of None \<Rightarrow> False | Some s \<Rightarrow> s \<noteq> [])"

text \<open>
  In the cost calculator a JavaScript number is modelled as an exact rational or \<open>NaN\<close>:
  the rounding of IEEE doubles is not modelled, so a computed cost is the code's only
  where the double operations involved are exact. \<open>Math.round\<close> rounds half up.
\<close>

datatype jsnum = Num rat | NaN

fun js_mul :: "jsnum \<Rightarrow> jsnum \<Rightarrow> jsnum" where
  "js_mul (Num a) (Num b) = Num (a * b)"
| "js_mul _ _ = NaN"

fun js_add :: "jsnum \<Rightarrow> jsnum \<Rightarrow> jsnum" where
  "js_add (Num a) (Num b) = Num (a + b)"
| "js_add _ _ = NaN"

fun js_div :: "jsnum \<Rightarrow> rat \<Rightarrow> jsnum" where
  "js_div (Num a) d = Num (a / d)"
| "js_div NaN d = NaN"

fun Math_round :: "jsnum \<Rightarrow> jsnum" where
  "Math_round (Num a) = Num (of_int \<lfloor>a + 1 / 2\<rfloor>)"
| "Math_round NaN = NaN"

section \<open>Cost calculator (kalibr.ts)\<close>

datatype Provider = Openai | Anthropic | Google | Cohere | Custom

record ModelPricing =
  input_price :: rat
  output_price :: rat

text \<open>
  The pricing tables are object literals, so a property read that misses the table's own
  keys goes on to \<open>Object.prototype\<close>. The result of \<open>obj[key]\<close> is therefore one of:
  an own entry, a member inherited from \<open>Object.prototype\<close> (a function or object, truthy,
  with no \<open>input\<close>/\<open>output\<close> of its own), or \<open>undefined\<close>.
\<close>

datatype lookup = Own ModelPricing | Inherited | Undefined

definition Object_prototype_keys :: "string list" where
  "Object_prototype_keys =
     [''constructor'', ''__defineGetter__'', ''__defineSetter__'', ''hasOwnProperty'',
      ''__lookupGetter__'', ''__lookupSetter__'', ''isPrototypeOf'',
      ''propertyIsEnumerable'', ''toString'', ''valueOf'', ''__proto__'',
      ''toLocaleString'']"

definition obj_get :: "(string \<times> ModelPricing) list \<Rightarrow> string \<Rightarrow> lookup" where
  "obj_get own k =
     (case map_of own k of
        Some p \<Rightarrow> Own p
      | None \<Rightarrow> if k \<in> set Object_prototype_keys then Inherited else Undefined)"

definition PRICING :: "Provider \<Rightarrow> (string \<times> ModelPricing) list option" where
  "PRICING p =
     (case p of
        Openai \<Rightarrow> Some
          [(''gpt-4'', \<lparr>input_price = 30, output_price = 60\<rparr>),
           (''gpt-4-turbo'', \<lparr>input_price = 10, output_price = 30\<rparr>),
           (''gpt-4o'', \<lparr>input_price = 5 / 2, output_price = 10\<rparr>),
           (''gpt-3.5-turbo'', \<lparr>input_price = 1 / 2, output_price = 3 / 2\<rparr>),
           (''gpt-4o-mini'', \<lparr>input_price = 15 / 100, output_price = 6 / 10\<rparr>)]
      | Anthropic \<Rightarrow> Some
          [(''claude-3-opus'', \<lparr>input_price = 15, output_price = 75\<rparr>),
           (''claude-3-sonnet'', \<lparr>input_price = 3, output_price = 15\<rparr>),
           (''claude-3-haiku'', \<lparr>input_price = 1 / 4, output_price = 5 / 4\<rparr>),
           (''claude-3.5-sonnet'', \<lparr>input_price = 3, output_price = 15\<rparr>)]
      | Google \<Rightarrow> Some
          [(''gemini-pro'', \<lparr>input_price = 5 / 4, output_price = 5\<rparr>),
           (''gemini-1.5-pro'', \<lparr>input_price = 5 / 4, output_price = 5\<rparr>),
           (''gemini-1.5-flash'', \<lparr>input_price = 75 / 1000, output_price = 3 / 10\<rparr>)]
      | Cohere \<Rightarrow> Some
          [(''command'', \<lparr>input_price = 1, output_price = 2\<rparr>),
           (''command-r'', \<lparr>input_price = 1 / 2, output_price = 3 / 2\<rparr>),
           (''command-r-plus'', \<lparr>input_price = 3, output_price = 15\<rparr>)]
      | Custom \<Rightarrow> None)"

definition DEFAULT_PRICING :: ModelPricing where
  "DEFAULT_PRICING = \<lparr>input_price = 30, output_price = 60\<rparr>"

definition normalizeModelName :: "Provider \<Rightarrow> string \<Rightarrow> string" where
  "normalizeModelName provider modelName =
     (let modelLower = toLowerCase modelName in
      case provider of
        Openai \<Rightarrow>
          if str_includes modelLower ''gpt-4o-mini'' then ''gpt-4o-mini''
          else if str_includes modelLower ''gpt-4o'' then ''gpt-4o''
          else if str_includes modelLower ''gpt-4-turbo'' then ''gpt-4-turbo''
          else if str_includes modelLower ''gpt-4'' then ''gpt-4''
          else if str_includes modelLower ''gpt-3.5'' then ''gpt-3.5-turbo''
          else modelLower
      | Anthropic \<Rightarrow>
          if str_includes modelLower ''claude-3.5-sonnet'' \<or> str_includes modelLower ''claude-3-5-sonnet''
          then ''claude-3.5-sonnet''
          else if str_includes modelLower ''claude-3-opus'' then ''claude-3-opus''
          else if str_includes modelLower ''claude-3-sonnet'' then ''claude-3-sonnet''
          else if str_includes modelLower ''claude-3-haiku'' then ''claude-3-haiku''
          else modelLower
      | Google \<Rightarrow>
          if str_includes modelLower ''gemini-1.5-flash'' then ''gemini-1.5-flash''
          else if str_includes modelLower ''gemini-1.5-pro'' then ''gemini-1.5-pro''
          else if str_includes modelLower ''gemini-pro'' then ''gemini-pro''
          else modelLower
      | Cohere \<Rightarrow>
          if str_includes modelLower ''command-r-plus'' then ''command-r-plus''
          else if str_includes modelLower ''command-r'' then ''command-r''
          else if str_includes modelLower ''command'' then ''command''
          else modelLower
      | Custom \<Rightarrow> modelLower)"

text \<open>
  \<open>pricing.input\<close> and \<open>pricing.output\<close>: a number for a pricing entry, \<open>undefined\<close>
  for an inherited member, and \<open>undefined\<close> in a product gives \<open>NaN\<close>.
\<close>

fun price_input :: "lookup \<Rightarrow> jsnum" where
  "price_input (Own p) = Num (input_price p)"
| "price_input _ = NaN"

fun price_output :: "lookup \<Rightarrow> jsnum" where
  "price_output (Own p) = Num (output_price p)"
| "price_output _ = NaN"

definition calculateCost :: "Provider \<Rightarrow> string \<Rightarrow> int \<Rightarrow> int \<Rightarrow> jsnum" where
  "calculateCost provider modelId inputTokens outputTokens =
     (let providerPricing = (case PRICING provider of Some t \<Rightarrow> t | None \<Rightarrow> []);
          normalizedModel = normalizeModelName provider modelId;
          pricing = (case obj_get providerPricing normalizedModel of
                       Undefined \<Rightarrow> Own DEFAULT_PRICING
                     | v \<Rightarrow> v);
          inputCost = js_mul (Num (of_int inputTokens / 1000000)) (price_input pricing);
          outputCost = js_mul (Num (of_int outputTokens / 1000000)) (price_output pricing)
      in js_div (Math_round (js_mul (js_add inputCost outputCost) (Num 1000000))) 1000000)"

section \<open>Spans: SpanBuilder and StartedSpan (kalibr.ts)\<close>

datatype Status = Success | Error | Timeout

datatype Environment = Prod | Staging | Dev

datatype DataClass = Economic | Performance | Diagnostic

text \<open>The string a \<open>Provider\<close> value is at run time.\<close>

fun provider_str :: "Provider \<Rightarrow> string" where
  "provider_str Openai = ''openai''"
| "provider_str Anthropic = ''anthropic''"
| "provider_str Google = ''google''"
| "provider_str Cohere = ''cohere''"
| "provider_str Custom = ''custom''"

type_synonym Metadata = "(string \<times> string) list"

record KalibrSpan =
  schema_version :: string
  trace_id :: string
  span_id :: string
  parent_span_id :: "string option"
  tenant_id :: string
  workflow_id :: "string option"
  sandbox_id :: "string option"
  runtime_env :: "string option"
  provider :: Provider
  model_id :: string
  model_name :: "string option"
  operation :: string
  endpoint :: "string option"
  duration_ms :: int
  latency_ms :: "int option"
  input_tokens :: int
  output_tokens :: int
  total_tokens :: "int option"
  cost_usd :: jsnum
  total_cost_usd :: "jsnum option"
  status :: Status
  error_type :: "string option"
  error_message :: "string option"
  stack_trace :: "string option"
  timestamp :: string
  ts_start :: "string option"
  ts_end :: "string option"
  environment :: "Environment option"
  service :: "string option"
  user_id :: "string option"
  request_id :: "string option"
  metadata :: "Metadata option"
  data_class :: "DataClass option"
  vendor :: "string option"

text \<open>
  \<open>PartialSpan = Partial<KalibrSpan>\<close>: every field may be unset. Only the fields the
  builder writes or \<open>finish\<close> reads are kept.
\<close>

record PartialSpan =
  ps_trace_id :: "string option"
  ps_span_id :: "string option"
  ps_parent_span_id :: "string option"
  ps_tenant_id :: "string option"
  ps_workflow_id :: "string option"
  ps_sandbox_id :: "string option"
  ps_runtime_env :: "string option"
  ps_provider :: "Provider option"
  ps_model_id :: "string option"
  ps_model_name :: "string option"
  ps_operation :: "string option"
  ps_endpoint :: "string option"
  ps_environment :: "Environment option"
  ps_service :: "string option"
  ps_user_id :: "string option"
  ps_request_id :: "string option"
  ps_metadata :: "Metadata option"
  ps_data_class :: "DataClass option"
  ps_vendor :: "string option"

text \<open>
  The transport client. \<open>fetchFn\<close> stands for the HTTP round trip of \<open>sendSpans\<close>:
  \<open>None\<close> for a 2xx answer, \<open>Some detail\<close> for a non-2xx answer or a network failure.
\<close>

record Kalibr =
  apiKey :: string
  tenantId :: string
  cfg_endpoint :: string
  cfg_environment :: "Environment option"
  cfg_service :: "string option"
  fetchFn :: "KalibrSpan list \<Rightarrow> string option"

datatype SpanError = ValidationError string | TransportError string

definition sendSpans :: "Kalibr \<Rightarrow> KalibrSpan list \<Rightarrow> SpanError + unit" where
  "sendSpans client spans =
     (if spans = [] then Inr ()
      else case fetchFn client spans of
             None \<Rightarrow> Inr ()
           | Some detail \<Rightarrow> Inl (TransportError detail))"

definition sendSpan :: "Kalibr \<Rightarrow> KalibrSpan \<Rightarrow> SpanError + unit" where
  "sendSpan client s = sendSpans client [s]"

record SpanBuilder =
  sb_span :: PartialSpan
  sb_client :: "Kalibr option"

definition SpanBuilder_new :: SpanBuilder where
  "SpanBuilder_new =
     \<lparr>sb_span = \<lparr>ps_trace_id = None, ps_span_id = None, ps_parent_span_id = None,
                  ps_tenant_id = None, ps_workflow_id = None, ps_sandbox_id = None,
                  ps_runtime_env = None, ps_provider = None, ps_model_id = None,
                  ps_model_name = None, ps_operation = None, ps_endpoint = None,
                  ps_environment = None, ps_service = None, ps_user_id = None,
                  ps_request_id = None, ps_metadata = None, ps_data_class = None,
                  ps_vendor = None\<rparr>,
      sb_client = None\<rparr>"

text \<open>One constructor per fluent setter of \<open>SpanBuilder\<close>.\<close>

datatype Setter =
    setTraceId string
  | setSpanId string
  | setParentSpanId "string option"
  | setTenantId string
  | setWorkflowId string
  | setSandboxId string
  | setRuntimeEnv string
  | setProvider Provider
  | setModel string
  | setModelName string
  | setOperation string
  | setEndpoint string
  | setEnvironment Environment
  | setService string
  | setUserId string
  | setRequestId string
  | setMetadata Metadata
  | setDataClass DataClass
  | useClient Kalibr

fun apply_setter :: "SpanBuilder \<Rightarrow> Setter \<Rightarrow> SpanBuilder" where
  "apply_setter b (setTraceId v) = b\<lparr>sb_span := (sb_span b)\<lparr>ps_trace_id := Some v\<rparr>\<rparr>"
| "apply_setter b (setSpanId v) = b\<lparr>sb_span := (sb_span b)\<lparr>ps_span_id := Some v\<rparr>\<rparr>"
| "apply_setter b (setParentSpanId v) = b\<lparr>sb_span := (sb_span b)\<lparr>ps_parent_span_id := v\<rparr>\<rparr>"
| "apply_setter b (setTenantId v) = b\<lparr>sb_span := (sb_span b)\<lparr>ps_tenant_id := Some v\<rparr>\<rparr>"
| "apply_setter b (setWorkflowId v) = b\<lparr>sb_span := (sb_span b)\<lparr>ps_workflow_id := Some v\<rparr>\<rparr>"
| "apply_setter b (setSandboxId v) = b\<lparr>sb_span := (sb_span b)\<lparr>ps_sandbox_id := Some v\<rparr>\<rparr>"
| "apply_setter b (setRuntimeEnv v) = b\<lparr>sb_span := (sb_span b)\<lparr>ps_runtime_env := Some v\<rparr>\<rparr>"
| "apply_setter b (setProvider v) =
     b\<lparr>sb_span := (sb_span b)\<lparr>ps_provider := Some v, ps_vendor := Some (provider_str v)\<rparr>\<rparr>"
| "apply_setter b (setModel v) =
     b\<lparr>sb_span := (sb_span b)\<lparr>ps_model_id := Some v, ps_model_name := Some v\<rparr>\<rparr>"
| "apply_setter b (setModelName v) = b\<lparr>sb_span := (sb_span b)\<lparr>ps_model_name := Some v\<rparr>\<rparr>"
| "apply_setter b (setOperation v) = b\<lparr>sb_span := (sb_span b)\<lparr>ps_operation := Some v\<rparr>\<rparr>"
| "apply_setter b (setEndpoint v) = b\<lparr>sb_span := (sb_span b)\<lparr>ps_endpoint := Some v\<rparr>\<rparr>"
| "apply_setter b (setEnvironment v) = b\<lparr>sb_span := (sb_span b)\<lparr>ps_environment := Some v\<rparr>\<rparr>"
| "apply_setter b (setService v) = b\<lparr>sb_span := (sb_span b)\<lparr>ps_service := Some v\<rparr>\<rparr>"
| "apply_setter b (setUserId v) = b\<lparr>sb_span := (sb_span b)\<lparr>ps_user_id := Some v\<rparr>\<rparr>"
| "apply_setter b (setRequestId v) = b\<lparr>sb_span := (sb_span b)\<lparr>ps_request_id := Some v\<rparr>\<rparr>"
| "apply_setter b (setMetadata v) = b\<lparr>sb_span := (sb_span b)\<lparr>ps_metadata := Some v\<rparr>\<rparr>"
| "apply_setter b (setDataClass v) = b\<lparr>sb_span := (sb_span b)\<lparr>ps_data_class := Some v\<rparr>\<rparr>"
| "apply_setter b (useClient c) = b\<lparr>sb_client := Some c\<rparr>"

record StartedSpan =
  ss_span :: PartialSpan
  startTime :: int
  startTimestamp :: string
  ss_client :: "Kalibr option"

text \<open>
  \<open>start\<close> reads the clock (\<open>now\<close>, \<open>ts\<close>), may draw two fresh identifiers
  (\<open>id1\<close>, \<open>id2\<close>) and falls back to the singleton client when the builder has none.
  The source hands the builder's own span object to the started span, so a setter called
  on the builder afterwards still changes it; the record returned here is that object as
  it stands when \<open>start\<close> returns, and \<open>finish\<close> below takes the started span in whatever
  state it has when it runs.
\<close>

definition start :: "int \<Rightarrow> string \<Rightarrow> string \<Rightarrow> string \<Rightarrow> Kalibr option \<Rightarrow> SpanBuilder \<Rightarrow> StartedSpan" where
  "start now ts id1 id2 singleton b =
     (let s0 = sb_span b;
          s1 = (if \<not> truthy (ps_trace_id s0) then s0\<lparr>ps_trace_id := Some id1\<rparr> else s0);
          s2 = (if \<not> truthy (ps_span_id s1) then s1\<lparr>ps_span_id := Some id2\<rparr> else s1);
          client = (case sb_client b of Some c \<Rightarrow> Some c | None \<Rightarrow> singleton);
          s5 = (case client of
                  None \<Rightarrow> s2
                | Some c \<Rightarrow>
                    (let s3 = (if \<not> truthy (ps_tenant_id s2)
                               then s2\<lparr>ps_tenant_id := Some (tenantId c)\<rparr> else s2);
                         s4 = (if ps_environment s3 = None \<and> cfg_environment c \<noteq> None
                               then s3\<lparr>ps_environment := cfg_environment c\<rparr> else s3)
                     in if \<not> truthy (ps_service s4) \<and> truthy (cfg_service c)
                        then s4\<lparr>ps_service := cfg_service c\<rparr> else s4))
      in \<lparr>ss_span = s5, startTime = now, startTimestamp = ts, ss_client = client\<rparr>)"

record FinishOptions =
  inputTokens :: int
  outputTokens :: int
  opt_status :: "Status option"
  errorType :: "string option"
  errorMessage :: "string option"
  stackTrace :: "string option"
  costUsd :: "jsnum option"
  opt_metadata :: "Metadata option"
  autoSend :: "bool option"

text \<open>\<open>{ ...a, ...b }\<close> on key/value lists: the keys of \<open>a\<close> keep their place, \<open>b\<close> wins.\<close>

definition spread_merge :: "Metadata \<Rightarrow> Metadata \<Rightarrow> Metadata" where
  "spread_merge a b =
     map (\<lambda>(k, v). (k, case map_of b k of Some w \<Rightarrow> w | None \<Rightarrow> v)) a
       @ filter (\<lambda>(k, v). map_of a k = None) b"

text \<open>
  The object literal \<open>completeSpan\<close> that \<open>finish\<close> builds once the required fields are
  known to be set, with the cost and the merged metadata computed just before it.
\<close>

definition completeSpan ::
  "int \<Rightarrow> string \<Rightarrow> StartedSpan \<Rightarrow> FinishOptions \<Rightarrow> Provider \<Rightarrow> string \<Rightarrow> KalibrSpan" where
  "completeSpan endTime endTimestamp ss options prov mid =
     (let durationMs = endTime - startTime ss; sp = ss_span ss;
          cost = (case costUsd options of
                    Some c \<Rightarrow> c
                  | None \<Rightarrow> calculateCost prov mid (inputTokens options) (outputTokens options));
          md = (if ps_metadata sp \<noteq> None \<or> opt_metadata options \<noteq> None
                then Some (spread_merge (case ps_metadata sp of Some a \<Rightarrow> a | None \<Rightarrow> [])
                                        (case opt_metadata options of Some b \<Rightarrow> b | None \<Rightarrow> []))
                else None)
      in \<lparr>schema_version = ''1.0'',
          trace_id = (case ps_trace_id sp of Some t \<Rightarrow> t | None \<Rightarrow> []),
          span_id = (case ps_span_id sp of Some t \<Rightarrow> t | None \<Rightarrow> []),
          parent_span_id = ps_parent_span_id sp,
          tenant_id = (case ps_tenant_id sp of Some t \<Rightarrow> t | None \<Rightarrow> []),
          workflow_id = ps_workflow_id sp,
          sandbox_id = ps_sandbox_id sp,
          runtime_env = ps_runtime_env sp,
          provider = prov,
          model_id = mid,
          model_name = (case ps_model_name sp of Some n \<Rightarrow> Some n | None \<Rightarrow> Some mid),
          operation = (case ps_operation sp of Some t \<Rightarrow> t | None \<Rightarrow> []),
          endpoint = ps_endpoint sp,
          duration_ms = durationMs,
          latency_ms = Some durationMs,
          input_tokens = inputTokens options,
          output_tokens = outputTokens options,
          total_tokens = Some (inputTokens options + outputTokens options),
          cost_usd = cost,
          total_cost_usd = Some cost,
          status = (case opt_status options of Some st \<Rightarrow> st | None \<Rightarrow> Success),
          error_type = errorType options,
          error_message = errorMessage options,
          stack_trace = stackTrace options,
          timestamp = endTimestamp,
          ts_start = Some (startTimestamp ss),
          ts_end = Some endTimestamp,
          environment = ps_environment sp,
          service = ps_service sp,
          user_id = ps_user_id sp,
          request_id = ps_request_id sp,
          metadata = md,
          data_class = ps_data_class sp,
          vendor = (case ps_vendor sp of Some v \<Rightarrow> Some v | None \<Rightarrow> Some (provider_str prov))\<rparr>)"

text \<open>
  \<open>finish\<close> reads the clock (\<open>endTime\<close>, \<open>endTimestamp\<close>). The result is the thrown error
  or the returned span, paired with the spans handed to the transport client.
\<close>

definition finish ::
  "int \<Rightarrow> string \<Rightarrow> StartedSpan \<Rightarrow> FinishOptions \<Rightarrow> (SpanError + KalibrSpan) \<times> KalibrSpan list" where
  "finish endTime endTimestamp ss options =
     (let sp = ss_span ss in
      case ps_provider sp of
        None \<Rightarrow> (Inl (ValidationError ''SpanBuilder: provider is required''), [])
      | Some prov \<Rightarrow>
      if \<not> truthy (ps_model_id sp)
      then (Inl (ValidationError ''SpanBuilder: model_id is required (use setModel())''), [])
      else if \<not> truthy (ps_operation sp)
      then (Inl (ValidationError ''SpanBuilder: operation is required''), [])
      else if \<not> truthy (ps_tenant_id sp)
      then (Inl (ValidationError ''SpanBuilder: tenant_id is required''), [])
      else
        (let s = completeSpan endTime endTimestamp ss options prov
                   (case ps_model_id sp of Some m \<Rightarrow> m | None \<Rightarrow> [])
         in case (if autoSend options \<noteq> Some False then ss_client ss else None) of
              None \<Rightarrow> (Inr s, [])
            | Some client \<Rightarrow>
                (case sendSpan client s of
                   Inl e \<Rightarrow> (Inl e, [s])
                 | Inr _ \<Rightarrow> (Inr s, [s]))))"

section \<open>TraceCapsule (capsule.ts)\<close>

text \<open>
  The numbers a capsule carries (costs, durations, the two aggregates) are values of an
  arbitrary type \<open>'n\<close>. The addition \<open>+\<close> of JavaScript numbers, which on IEEE doubles
  rounds and is not associative, is the parameter \<open>num_add\<close>, and the literal \<open>0.0\<close> is
  the parameter \<open>num_zero\<close>; nothing is assumed of either. \<open>appendHop\<close> reads the clock
  for the new \<open>timestamp\<close>.
\<close>

record 'n CapsuleHop =
  hop_provider :: "string option"
  hop_operation :: "string option"
  hop_model :: "string option"
  hop_duration_ms :: "'n option"
  hop_status :: "Status option"
  hop_cost_usd :: "'n option"
  hop_input_tokens :: "int option"
  hop_output_tokens :: "int option"
  hop_error_type :: "string option"
  hop_agent_name :: "string option"
  hop_index :: "nat option"

record 'n TraceCapsule =
  traceId :: string
  cap_timestamp :: string
  aggregateCostUsd :: 'n
  aggregateLatencyMs :: 'n
  lastNHops :: "'n CapsuleHop list"
  cap_tenantId :: "string option"
  workflowId :: "string option"
  cap_metadata :: Metadata
  contextToken :: string
  parentContextToken :: "string option"

record 'n CapsuleOptions =
  co_traceId :: "string option"
  co_lastNHops :: "'n CapsuleHop list option"
  co_aggregateCostUsd :: "'n option"
  co_aggregateLatencyMs :: "'n option"
  co_tenantId :: "string option"
  co_workflowId :: "string option"
  co_metadata :: "Metadata option"
  co_contextToken :: "string option"
  co_parentContextToken :: "string option"

definition MAX_HOPS :: nat where
  "MAX_HOPS = 5"

definition no_options :: "'n CapsuleOptions" where
  "no_options =
     \<lparr>co_traceId = None, co_lastNHops = None, co_aggregateCostUsd = None,
      co_aggregateLatencyMs = None, co_tenantId = None, co_workflowId = None,
      co_metadata = None, co_contextToken = None, co_parentContextToken = None\<rparr>"

text \<open>
  The constructor; \<open>now\<close> is the clock reading and \<open>fresh1\<close>, \<open>fresh2\<close> are what
  \<open>newTraceId()\<close> returns for the trace id and the context token.
\<close>

definition TraceCapsule_new ::
  "'n \<Rightarrow> string \<Rightarrow> string \<Rightarrow> string \<Rightarrow> 'n CapsuleOptions \<Rightarrow> 'n TraceCapsule" where
  "TraceCapsule_new num_zero now fresh1 fresh2 options =
     \<lparr>traceId = (if truthy (co_traceId options)
                 then (case co_traceId options of Some t \<Rightarrow> t | None \<Rightarrow> fresh1) else fresh1),
      cap_timestamp = now,
      aggregateCostUsd = (case co_aggregateCostUsd options of Some c \<Rightarrow> c | None \<Rightarrow> num_zero),
      aggregateLatencyMs =
        (case co_aggregateLatencyMs options of Some c \<Rightarrow> c | None \<Rightarrow> num_zero),
      lastNHops = (case co_lastNHops options of Some hs \<Rightarrow> hs | None \<Rightarrow> []),
      cap_tenantId = co_tenantId options,
      workflowId = co_workflowId options,
      cap_metadata = (case co_metadata options of Some m \<Rightarrow> m | None \<Rightarrow> []),
      contextToken = (if truthy (co_contextToken options)
                      then (case co_contextToken options of Some t \<Rightarrow> t | None \<Rightarrow> fresh2)
                      else fresh2),
      parentContextToken = co_parentContextToken options\<rparr>"

definition appendHop ::
  "('n \<Rightarrow> 'n \<Rightarrow> 'n) \<Rightarrow> 'n \<Rightarrow> 'n TraceCapsule \<Rightarrow> string \<times> 'n CapsuleHop \<Rightarrow> 'n TraceCapsule" where
  "appendHop num_add num_zero c nh =
     (let now = fst nh; hop = snd nh;
          indexedHop = hop\<lparr>hop_index := Some (length (lastNHops c))\<rparr>;
          pushed = lastNHops c @ [indexedHop];
          hops = (if length pushed > MAX_HOPS then tl pushed else pushed)
      in c\<lparr>lastNHops := hops,
           aggregateCostUsd :=
             num_add (aggregateCostUsd c)
               (case hop_cost_usd hop of Some x \<Rightarrow> x | None \<Rightarrow> num_zero),
           aggregateLatencyMs :=
             num_add (aggregateLatencyMs c)
               (case hop_duration_ms hop of Some x \<Rightarrow> x | None \<Rightarrow> num_zero),
           cap_timestamp := now\<rparr>)"

text \<open>A sequence of \<open>appendHop\<close> calls, each with the clock reading at that call.\<close>

definition appendHops ::
  "('n \<Rightarrow> 'n \<Rightarrow> 'n) \<Rightarrow> 'n \<Rightarrow> 'n TraceCapsule \<Rightarrow> (string \<times> 'n CapsuleHop) list
     \<Rightarrow> 'n TraceCapsule" where
  "appendHops num_add num_zero c calls = foldl (appendHop num_add num_zero) c calls"

section \<open>Router (context.ts)\<close>

datatype LLMProvider = openai | anthropic | google | cohere

datatype JsError = JsError (message: string)

definition detectProvider :: "string \<Rightarrow> JsError + LLMProvider" where
  "detectProvider modelName =
     (let modelLower = toLowerCase modelName in
      if startsWith modelLower ''gpt-'' \<or> startsWith modelLower ''o1-''
           \<or> startsWith modelLower ''o3-''
      then Inr openai
      else if startsWith modelLower ''claude-'' then Inr anthropic
      else if startsWith modelLower ''gemini-'' \<or> str_includes modelLower ''models/gemini''
      then Inr google
      else if startsWith modelLower ''command'' then Inr cohere
      else Inl (JsError (''Cannot determine provider for model: '' @ modelName @ ''. ''
             @ ''Supported prefixes: gpt-, o1-, o3- (OpenAI), claude- (Anthropic), ''
             @ ''gemini-, models/gemini (Google), command (Cohere)'')))"

datatype Tools = ToolId string | ToolIds "string list"

record PathConfig =
  model :: string
  tools :: "Tools option"
  params :: "Metadata option"

datatype PathSpec = ModelName string | FullPath PathConfig

fun normalizePath :: "PathSpec \<Rightarrow> PathConfig" where
  "normalizePath (ModelName m) = \<lparr>model = m, tools = None, params = None\<rparr>"
| "normalizePath (FullPath p) = p"

record Choice =
  choice_index :: nat
  content :: string
  finish_reason :: string

record ChatCompletion =
  cc_id :: string
  created :: int
  cc_model :: string
  choices :: "Choice list"
  prompt_tokens :: int
  completion_tokens :: int
  cc_total_tokens :: int

record DecideResponse =
  decision_model_id :: string
  decision_reason :: string

text \<open>One call of \<open>reportOutcome(traceId, goal, success, options)\<close>.\<close>

record OutcomeCall =
  oc_traceId :: string
  oc_goal :: string
  oc_success :: bool
  oc_score :: "rat option"
  oc_failureReason :: "string option"
  oc_error_type :: "string option"

text \<open>
  What the router's collaborators answer during one call: the ambient trace id of the
  async context, the identifier \<open>newTraceId()\<close> mints, the decision service, the provider
  call of the \<open>i\<close>-th attempt, and whether the \<open>n\<close>-th outcome submission is accepted
  (a rejected submission throws in \<open>reportOutcome\<close>).
\<close>

record Env =
  getTraceId :: "string option"
  newTraceId :: string
  decide :: "JsError + DecideResponse"
  dispatch :: "nat \<Rightarrow> LLMProvider \<Rightarrow> string \<Rightarrow> JsError + ChatCompletion"
  reportOutcome :: "nat \<Rightarrow> OutcomeCall \<Rightarrow> bool"

record Router =
  goal :: string
  paths :: "PathConfig list"
  successWhen :: "(string \<Rightarrow> bool) option"
  lastTraceId :: "string option"
  lastDecision :: "DecideResponse option"
  lastModel :: "string option"
  outcomeReported :: bool

record RouterConfig =
  rc_goal :: string
  rc_paths :: "PathSpec list"
  rc_successWhen :: "(string \<Rightarrow> bool) option"

definition Router_new :: "RouterConfig \<Rightarrow> JsError + Router" where
  "Router_new config =
     (let ps = map normalizePath (rc_paths config) in
      if length ps = 0 then Inl (JsError ''Router requires at least one path'')
      else Inr \<lparr>goal = rc_goal config, paths = ps, successWhen = rc_successWhen config,
                 lastTraceId = None, lastDecision = None, lastModel = None,
                 outcomeReported = False\<rparr>)"

text \<open>
  The world a router acts on: the router object and the log of \<open>reportOutcome\<close> calls made
  so far, each with whether the submission was accepted.
\<close>

type_synonym World = "Router \<times> (OutcomeCall \<times> bool) list"

definition report :: "Env \<Rightarrow> bool \<Rightarrow> string option \<Rightarrow> rat option \<Rightarrow> World \<Rightarrow> World" where
  "report env success reason score w =
     (let r = fst w; calls = snd w in
      if outcomeReported r then w
      else
        (let traceId = (if truthy (lastTraceId r) then lastTraceId r else getTraceId env) in
         if \<not> truthy traceId then w
         else
           (let call = \<lparr>oc_traceId = (case traceId of Some t \<Rightarrow> t | None \<Rightarrow> []),
                        oc_goal = goal r, oc_success = success, oc_score = score,
                        oc_failureReason = (if success then None else reason),
                        oc_error_type = None\<rparr>;
                ok = reportOutcome env (length calls) call
            in (if ok then r\<lparr>outcomeReported := True\<rparr> else r, calls @ [(call, ok)]))))"

definition reportFailure :: "Env \<Rightarrow> string \<Rightarrow> string \<Rightarrow> World \<Rightarrow> World" where
  "reportFailure env errType errMessage w =
     (let r = fst w; calls = snd w in
      if outcomeReported r \<or> \<not> truthy (lastTraceId r) then w
      else
        (let call = \<lparr>oc_traceId = (case lastTraceId r of Some t \<Rightarrow> t | None \<Rightarrow> []),
                     oc_goal = goal r, oc_success = False, oc_score = None,
                     oc_failureReason = Some (errType @ '': '' @ errMessage),
                     oc_error_type = Some errType\<rparr>;
             ok = reportOutcome env (length calls) call
         in (if ok then r\<lparr>outcomeReported := True\<rparr> else r, calls @ [(call, ok)])))"

text \<open>The two loops of \<open>completion\<close> that build the ordered candidate list.\<close>

definition candidatePaths :: "PathConfig list \<Rightarrow> string \<Rightarrow> PathConfig list" where
  "candidatePaths ps selectedModel =
     (let first = (case find (\<lambda>p. model p = selectedModel) ps of
                     Some selectedPath \<Rightarrow> [selectedPath]
                   | None \<Rightarrow> [])
      in foldl (\<lambda>acc p. if model p \<noteq> selectedModel then acc @ [p] else acc) first ps)"

text \<open>The body of the \<open>try\<close> block for the \<open>i\<close>-th candidate.\<close>

definition attempt :: "Env \<Rightarrow> nat \<Rightarrow> PathConfig \<Rightarrow> JsError + ChatCompletion" where
  "attempt env i candidate =
     (case detectProvider (model candidate) of
        Inl e \<Rightarrow> Inl e
      | Inr candidateProvider \<Rightarrow> dispatch env i candidateProvider (model candidate))"

text \<open>
  The fallback loop from candidate \<open>i\<close> on; it returns \<open>lastError\<close> and \<open>response\<close> as
  they stand when the loop ends.
\<close>

fun fallback :: "Env \<Rightarrow> nat \<Rightarrow> PathConfig list \<Rightarrow> JsError option \<Rightarrow> World
    \<Rightarrow> (JsError option \<times> ChatCompletion option) \<times> World" where
  "fallback env i [] lastError w = ((lastError, None), w)"
| "fallback env i (candidate # rest) lastError w =
     (case attempt env i candidate of
        Inr response \<Rightarrow>
          ((lastError, Some response), ((fst w)\<lparr>lastModel := Some (model candidate)\<rparr>, snd w))
      | Inl err \<Rightarrow>
          fallback env (Suc i) rest (Some err)
            (reportFailure env ''provider_error'' (message err) w))"

record CompletionOptions =
  forceModel :: "string option"

text \<open>
  The model \<open>completion\<close> selects: the forced one, else the decision service's, else (when
  the decision query throws) the first configured path's. Reading \<open>paths[0].model\<close> of an
  empty list throws a \<open>TypeError\<close> out of the \<open>catch\<close> block.
\<close>

definition selectModel ::
  "Env \<Rightarrow> CompletionOptions \<Rightarrow> PathConfig list \<Rightarrow> JsError + DecideResponse option \<times> string" where
  "selectModel env options ps =
     (if truthy (forceModel options)
      then Inr (None, case forceModel options of Some m \<Rightarrow> m | None \<Rightarrow> [])
      else case decide env of
             Inr decision \<Rightarrow> Inr (Some decision, decision_model_id decision)
           | Inl err \<Rightarrow>
               (case ps of
                  [] \<Rightarrow> Inl (JsError ''TypeError: Cannot read properties of undefined'')
                | p # _ \<Rightarrow> Inr (None, model p)))"

definition completion :: "Env \<Rightarrow> CompletionOptions \<Rightarrow> World \<Rightarrow> (JsError + ChatCompletion) \<times> World" where
  "completion env options w =
     (let r0 = (fst w)\<lparr>outcomeReported := False,
                       lastTraceId := Some (if truthy (getTraceId env)
                                            then (case getTraceId env of Some t \<Rightarrow> t | None \<Rightarrow> [])
                                            else newTraceId env)\<rparr>;
          calls = snd w
      in case selectModel env options (paths r0) of
           Inl e \<Rightarrow> (Inl e, (r0, calls))
         | Inr (decision, selectedModel) \<Rightarrow>
             (let r1 = (case decision of Some d \<Rightarrow> r0\<lparr>lastDecision := Some d\<rparr> | None \<Rightarrow> r0) in
              case fallback env 0 (candidatePaths (paths r1) selectedModel) None (r1, calls) of
                ((lastError, None), w2) \<Rightarrow>
                  (Inl (case lastError of Some e \<Rightarrow> e | None \<Rightarrow> JsError ''All paths failed''), w2)
              | ((lastError, Some response), w2) \<Rightarrow>
                  (case successWhen (fst w2) of
                     None \<Rightarrow> (Inr response, w2)
                   | Some pred \<Rightarrow>
                       if outcomeReported (fst w2) then (Inr response, w2)
                       else
                         (let output = (case choices response of [] \<Rightarrow> [] | c # _ \<Rightarrow> content c);
                              success = pred output
                          in (Inr response,
                              report env success
                                (if success then None
                                 else Some ''Output did not meet success criteria'')
                                None w2)))))"

section \<open>Notions used in the statements\<close>

subsection \<open>Cost calculator\<close>

text \<open>
  The if-chain of \<open>normalizeModelName\<close> read as a table: per provider, the patterns in the
  order they are tested, each with the canonical name it yields.
\<close>

definition patterns :: "Provider \<Rightarrow> (string \<times> string) list" where
  "patterns p =
     (case p of
        Openai \<Rightarrow>
          [(''gpt-4o-mini'', ''gpt-4o-mini''), (''gpt-4o'', ''gpt-4o''),
           (''gpt-4-turbo'', ''gpt-4-turbo''), (''gpt-4'', ''gpt-4''),
           (''gpt-3.5'', ''gpt-3.5-turbo'')]
      | Anthropic \<Rightarrow>
          [(''claude-3.5-sonnet'', ''claude-3.5-sonnet''),
           (''claude-3-5-sonnet'', ''claude-3.5-sonnet''),
           (''claude-3-opus'', ''claude-3-opus''), (''claude-3-sonnet'', ''claude-3-sonnet''),
           (''claude-3-haiku'', ''claude-3-haiku'')]
      | Google \<Rightarrow>
          [(''gemini-1.5-flash'', ''gemini-1.5-flash''), (''gemini-1.5-pro'', ''gemini-1.5-pro''),
           (''gemini-pro'', ''gemini-pro'')]
      | Cohere \<Rightarrow>
          [(''command-r-plus'', ''command-r-plus''), (''command-r'', ''command-r''),
           (''command'', ''command'')]
      | Custom \<Rightarrow> [])"

fun first_match :: "(string \<times> string) list \<Rightarrow> string \<Rightarrow> string" where
  "first_match [] s = s"
| "first_match ((pat, canon) # rest) s = (if str_includes s pat then canon else first_match rest s)"

text \<open>
  A table prefers the most specific match when no pattern occurs inside a pattern that is
  tested after it: a longer pattern always comes before its prefixes and other fragments.
\<close>

fun no_shadowing :: "(string \<times> string) list \<Rightarrow> bool" where
  "no_shadowing [] = True"
| "no_shadowing ((pat, canon) # rest) =
     (list_all (\<lambda>(q, c). \<not> str_includes q pat) rest \<and> no_shadowing rest)"

text \<open>Rounding to six decimal places, and the price pair the specification resolves.\<close>

definition round6 :: "rat \<Rightarrow> rat" where
  "round6 x = of_int \<lfloor>x * 1000000 + 1 / 2\<rfloor> / 1000000"

definition resolved_pricing :: "Provider \<Rightarrow> string \<Rightarrow> ModelPricing" where
  "resolved_pricing p m =
     (case PRICING p of
        None \<Rightarrow> DEFAULT_PRICING
      | Some t \<Rightarrow> (case map_of t (normalizeModelName p m) of
                      Some e \<Rightarrow> e
                    | None \<Rightarrow> DEFAULT_PRICING))"

subsection \<open>Spans\<close>

text \<open>
  The required fields in the order \<open>finish\<close> checks them. A field is missing when it is
  unset or holds the empty string, which is what the test \<open>!field\<close> accepts.
\<close>

datatype Field = Provider_field | Model_id_field | Operation_field | Tenant_id_field

definition first_missing :: "PartialSpan \<Rightarrow> Field option" where
  "first_missing sp =
     (if ps_provider sp = None then Some Provider_field
      else if \<not> truthy (ps_model_id sp) then Some Model_id_field
      else if \<not> truthy (ps_operation sp) then Some Operation_field
      else if \<not> truthy (ps_tenant_id sp) then Some Tenant_id_field
      else None)"

fun required_message :: "Field \<Rightarrow> string" where
  "required_message Provider_field = ''SpanBuilder: provider is required''"
| "required_message Model_id_field = ''SpanBuilder: model_id is required (use setModel())''"
| "required_message Operation_field = ''SpanBuilder: operation is required''"
| "required_message Tenant_id_field = ''SpanBuilder: tenant_id is required''"

definition example_options :: FinishOptions where
  "example_options =
     \<lparr>inputTokens = 100, outputTokens = 50, opt_status = None, errorType = None,
      errorMessage = None, stackTrace = None, costUsd = None, opt_metadata = None,
      autoSend = Some False\<rparr>"

text \<open>A span built with the fluent setters and started at 00:00:01 of 1 January 2024
  (clock readings are milliseconds since the epoch).\<close>

definition example_setters :: "Setter list" where
  "example_setters =
     [setProvider Openai, setModel ''gpt-4o'', setOperation ''chat_completion'',
      setTenantId ''tenant-1'']"

definition built_started :: StartedSpan where
  "built_started =
     start 1704067201000 ''2024-01-01T00:00:01.000Z'' ''0123456789abcdef0123456789abcdef''
       ''fedcba9876543210fedcba9876543210'' None (foldl apply_setter SpanBuilder_new example_setters)"

text \<open>The same builder without \<open>setOperation\<close>.\<close>

definition no_operation_started :: StartedSpan where
  "no_operation_started =
     start 1704067201000 ''2024-01-01T00:00:01.000Z'' ''0123456789abcdef0123456789abcdef''
       ''fedcba9876543210fedcba9876543210'' None
       (foldl apply_setter SpanBuilder_new
          [setProvider Openai, setModel ''gpt-4o'', setTenantId ''tenant-1''])"

text \<open>
  A started span made with the exported constructor \<open>new StartedSpan(span, startTime, ...)\<close>:
  its \<open>vendor\<close> differs from its \<open>provider\<close> and its start time is 00:00:02.
\<close>

definition direct_started :: StartedSpan where
  "direct_started =
     \<lparr>ss_span = (sb_span SpanBuilder_new)
                  \<lparr>ps_trace_id := Some ''0123456789abcdef0123456789abcdef'',
                   ps_span_id := Some ''fedcba9876543210fedcba9876543210'',
                   ps_tenant_id := Some ''tenant-1'', ps_provider := Some Openai,
                   ps_model_id := Some ''gpt-4o'', ps_operation := Some ''chat_completion'',
                   ps_vendor := Some ''azure''\<rparr>,
      startTime = 1704067202000, startTimestamp = ''2024-01-01T00:00:02.000Z'', ss_client = None\<rparr>"

subsection \<open>Capsules\<close>

text \<open>The hop as the caller passed it, whatever index it carries.\<close>

definition unindexed :: "'n CapsuleHop \<Rightarrow> 'n CapsuleHop" where
  "unindexed h = h\<lparr>hop_index := None\<rparr>"




text \<open>The last \<open>n\<close> entries of a list, in their order.\<close>

definition most_recent :: "nat \<Rightarrow> 'a list \<Rightarrow> 'a list" where
  "most_recent n xs = drop (length xs - n) xs"

text \<open>
  Example hops. Their costs and durations are binary fractions and whole numbers, and so
  are all sums of them: double addition is exact on these values and agrees with the
  addition of rationals.
\<close>

definition example_hop :: "rat \<Rightarrow> rat CapsuleHop" where
  "example_hop d =
     \<lparr>hop_provider = Some ''openai'', hop_operation = Some ''summarize'',
      hop_model = Some ''gpt-4o'', hop_duration_ms = Some d, hop_status = Some Success,
      hop_cost_usd = Some (d / 8), hop_input_tokens = None, hop_output_tokens = None,
      hop_error_type = None, hop_agent_name = None, hop_index = None\<rparr>"

definition fresh_capsule :: "rat TraceCapsule" where
  "fresh_capsule =
     TraceCapsule_new 0 ''2024-01-01T00:00:00.000Z'' ''trace-1'' ''ctx-1'' no_options"

definition seven_calls :: "(string \<times> rat CapsuleHop) list" where
  "seven_calls =
     [(''t1'', example_hop 1), (''t2'', example_hop 2), (''t3'', example_hop 3),
      (''t4'', example_hop 4), (''t5'', example_hop 5), (''t6'', example_hop 6),
      (''t7'', example_hop 7)]"


subsection \<open>Router\<close>

text \<open>
  The candidate order in the words of the specification: the selected path first when a
  configured path has the selected model, then the remaining configured paths in their
  order, without the one already placed.
\<close>

definition spec_candidates :: "PathConfig list \<Rightarrow> string \<Rightarrow> PathConfig list" where
  "spec_candidates ps selectedModel =
     (case find (\<lambda>p. model p = selectedModel) ps of
        Some selectedPath \<Rightarrow> selectedPath # remove1 selectedPath ps
      | None \<Rightarrow> ps)"

text \<open>The calls of \<open>reportOutcome\<close> that an operation added to the log.\<close>

definition new_calls :: "World \<Rightarrow> World \<Rightarrow> (OutcomeCall \<times> bool) list" where
  "new_calls before after = drop (length (snd before)) (snd after)"

text \<open>The call \<open>report\<close> submits, and the calls \<open>reportFailure\<close> submits in the loop.\<close>

definition report_call :: "Env \<Rightarrow> Router \<Rightarrow> bool \<Rightarrow> string option \<Rightarrow> rat option \<Rightarrow> OutcomeCall" where
  "report_call env r success reason score =
     \<lparr>oc_traceId = (case (if truthy (lastTraceId r) then lastTraceId r else getTraceId env) of
                      Some t \<Rightarrow> t | None \<Rightarrow> []),
      oc_goal = goal r, oc_success = success, oc_score = score,
      oc_failureReason = (if success then None else reason), oc_error_type = None\<rparr>"

definition failure_call :: "OutcomeCall \<times> bool \<Rightarrow> bool" where
  "failure_call cb = (oc_error_type (fst cb) = Some ''provider_error'' \<and> \<not> oc_success (fst cb))"

definition example_paths :: "PathConfig list" where
  "example_paths = map normalizePath [ModelName ''gpt-4o'', ModelName ''claude-3-sonnet'']"

text \<open>Two configured paths that share a model and differ in their tools.\<close>

definition same_model_paths :: "PathConfig list" where
  "same_model_paths =
     [\<lparr>model = ''gpt-4o'', tools = Some (ToolId ''web_search''), params = None\<rparr>,
      \<lparr>model = ''gpt-4o'', tools = Some (ToolId ''code_executor''), params = None\<rparr>]"

definition example_response :: ChatCompletion where
  "example_response =
     \<lparr>cc_id = ''chatcmpl-1'', created = 0, cc_model = ''gpt-4o'',
      choices = [\<lparr>choice_index = 0, content = ''ok'', finish_reason = ''stop''\<rparr>],
      prompt_tokens = 1, completion_tokens = 1, cc_total_tokens = 2\<rparr>"

definition example_router :: Router where
  "example_router =
     \<lparr>goal = ''summarize'', paths = example_paths, successWhen = Some (\<lambda>out. True),
      lastTraceId = None, lastDecision = None, lastModel = None, outcomeReported = False\<rparr>"

definition example_decision :: DecideResponse where
  "example_decision = \<lparr>decision_model_id = ''claude-3-sonnet'', decision_reason = ''best''\<rparr>"

text \<open>Every provider call fails with the model's name as message; submissions are accepted.\<close>

definition env_all_fail :: Env where
  "env_all_fail =
     \<lparr>getTraceId = None, newTraceId = ''trace-1'', decide = Inr example_decision,
      dispatch = (\<lambda>i p m. Inl (JsError m)),
      reportOutcome = (\<lambda>n c. True)\<rparr>"

text \<open>The first provider call fails, later ones succeed; submissions are accepted.\<close>

definition env_first_fails :: Env where
  "env_first_fails =
     \<lparr>getTraceId = None, newTraceId = ''trace-1'', decide = Inr example_decision,
      dispatch = (\<lambda>i p m. if i = 0 then Inl (JsError ''overloaded'') else Inr example_response),
      reportOutcome = (\<lambda>n c. True)\<rparr>"

definition no_force :: CompletionOptions where
  "no_force = \<lparr>forceModel = None\<rparr>"

definition example_failure_call :: OutcomeCall where
  "example_failure_call =
     \<lparr>oc_traceId = ''trace-1'', oc_goal = ''summarize'', oc_success = False, oc_score = None,
      oc_failureReason = Some ''provider_error: overloaded'',
      oc_error_type = Some ''provider_error''\<rparr>"

text \<open>
  Three states of a router: an outcome already reported, no completion made yet, and a
  completion made whose outcome is not reported.
\<close>

definition reported_world :: World where
  "reported_world = (example_router\<lparr>lastTraceId := Some ''trace-1'', outcomeReported := True\<rparr>, [])"

definition fresh_world :: World where
  "fresh_world = (example_router, [])"

definition completed_world :: World where
  "completed_world = (example_router\<lparr>lastTraceId := Some ''trace-1''\<rparr>, [])"

section \<open>Cost calculator: normalization and pricing\<close>

lemma lower_char_idem: "lower_char (lower_char c) = lower_char c"
  unfolding lower_char_def Let_def by (simp add: of_char_of)

lemma toLowerCase_idem: "toLowerCase (toLowerCase s) = toLowerCase s"
  by (simp add: toLowerCase_def lower_char_idem)

text \<open>The if-chain of the source is the first-match search over the table.\<close>

lemma normalize_first_match:
  "normalizeModelName p m = first_match (patterns p) (toLowerCase m)"
  by (cases p) (simp_all add: normalizeModelName_def patterns_def Let_def)

lemma no_shadowing_patterns: "no_shadowing (patterns p)"
  by (cases p) (simp_all add: patterns_def)

text \<open>Every canonical name is a fixed point of the search of its provider.\<close>

lemma canon_fixed_each:
  "list_all (\<lambda>(pat, canon). first_match (patterns Openai) (toLowerCase canon) = canon) (patterns Openai)"
  "list_all (\<lambda>(pat, canon). first_match (patterns Anthropic) (toLowerCase canon) = canon) (patterns Anthropic)"
  "list_all (\<lambda>(pat, canon). first_match (patterns Google) (toLowerCase canon) = canon) (patterns Google)"
  "list_all (\<lambda>(pat, canon). first_match (patterns Cohere) (toLowerCase canon) = canon) (patterns Cohere)"
  "list_all (\<lambda>(pat, canon). first_match (patterns Custom) (toLowerCase canon) = canon) (patterns Custom)"
  by code_simp+

lemma canon_fixed:
  "list_all (\<lambda>(pat, canon). first_match (patterns p) (toLowerCase canon) = canon) (patterns p)"
  by (cases p) (simp_all only: canon_fixed_each)

lemma first_match_cases:
  "first_match t s = s \<and> list_all (\<lambda>(pat, canon). \<not> str_includes s pat) t
   \<or> (\<exists>pat canon. (pat, canon) \<in> set t \<and> first_match t s = canon)"
  by (induction t s rule: first_match.induct) auto

lemma normalize_idem:
  "normalizeModelName p (normalizeModelName p m) = normalizeModelName p m"
proof -
  let ?s = "toLowerCase m" and ?t = "patterns p"
  from first_match_cases[of ?t ?s] show ?thesis
  proof
    assume "first_match ?t ?s = ?s \<and> list_all (\<lambda>(pat, canon). \<not> str_includes ?s pat) ?t"
    then show ?thesis
      by (simp add: normalize_first_match toLowerCase_idem)
  next
    assume "\<exists>pat canon. (pat, canon) \<in> set ?t \<and> first_match ?t ?s = canon"
    then obtain pat canon where pc: "(pat, canon) \<in> set ?t" "first_match ?t ?s = canon"
      by blast
    from canon_fixed[of p] pc(1) have "first_match ?t (toLowerCase canon) = canon"
      by (auto simp add: list_all_iff)
    with pc(2) show ?thesis by (simp add: normalize_first_match)
  qed
qed

lemma cost_examples:
  "calculateCost Openai ''gpt-4o-2024-05-13'' 1000000 1000000 = Num (25 / 2)"
  "calculateCost Openai ''gpt-4o'' 1000000 1000000 = Num (25 / 2)"
  by code_simp+

lemma normalize_example: "normalizeModelName Openai ''GPT-4o-2024-05-13'' = ''gpt-4o''"
  by code_simp

text \<open>
  C4. \<open>calculateCost\<close> is claimed to return, for every provider and model id, the rounded
  non-negative cost for the resolved price pair, an unknown model resolving to the default
  pair. The lookup \<open>providerPricing[normalizedModel] || DEFAULT_PRICING\<close> also finds the
  members every object inherits: for the model id \<open>constructor\<close> (or \<open>__proto__\<close>) it yields
  a truthy value without prices, the default is not taken, and the result is \<open>NaN\<close> where
  the default pair gives 90.
\<close>

theorem calculateCost_inherited_member:
  "calculateCost Openai ''constructor'' 1000000 1000000 = NaN
   \<and> calculateCost Custom ''__proto__'' 1000 500 = NaN
   \<and> round6 (of_int 1000000 / 1000000 * input_price (resolved_pricing Openai ''constructor'')
             + of_int 1000000 / 1000000 * output_price (resolved_pricing Openai ''constructor''))
       = 90"
proof (intro conjI)
  show "calculateCost Openai ''constructor'' 1000000 1000000 = NaN" by code_simp
  show "calculateCost Custom ''__proto__'' 1000 500 = NaN" by code_simp
  show "round6 (of_int 1000000 / 1000000 * input_price (resolved_pricing Openai ''constructor'')
             + of_int 1000000 / 1000000 * output_price (resolved_pricing Openai ''constructor''))
       = 90"
    by code_simp
qed

text \<open>
  C5. Normalizing a normalized model name changes nothing; the normalization is the
  first-match search over a table in which no pattern occurs inside a later one, so the
  most specific pattern wins; and the cost of one million input and output tokens of
  \<open>gpt-4o-2024-05-13\<close> is that of \<open>gpt-4o\<close>, 12.5.
\<close>

theorem normalizeModelName_idempotent_specific:
  "normalizeModelName p (normalizeModelName p m) = normalizeModelName p m
   \<and> normalizeModelName p m = first_match (patterns p) (toLowerCase m)
   \<and> no_shadowing (patterns p)
   \<and> calculateCost Openai ''gpt-4o-2024-05-13'' 1000000 1000000
       = calculateCost Openai ''gpt-4o'' 1000000 1000000
   \<and> calculateCost Openai ''gpt-4o'' 1000000 1000000 = Num (25 / 2)"
  by (simp add: normalize_idem normalize_first_match [symmetric] no_shadowing_patterns
        cost_examples)

theorem normalizeModelName_idempotent_specific_witness:
  "normalizeModelName Openai (normalizeModelName Openai ''GPT-4o-2024-05-13'') = ''gpt-4o''
   \<and> no_shadowing (patterns Openai)"
proof -
  from normalizeModelName_idempotent_specific [of Openai "''GPT-4o-2024-05-13''"]
  have i: "normalizeModelName Openai (normalizeModelName Openai ''GPT-4o-2024-05-13'')
             = normalizeModelName Openai ''GPT-4o-2024-05-13''"
    and n: "no_shadowing (patterns Openai)"
    by blast+
  from i have "normalizeModelName Openai (normalizeModelName Openai ''GPT-4o-2024-05-13'') = ''gpt-4o''"
    unfolding normalize_example .
  with n show ?thesis by blast
qed

section \<open>Spans: validation and the finished span\<close>

lemma truthy_None: "\<not> truthy None"
  by (simp add: truthy_def)

lemma finish_missing:
  "first_missing (ss_span ss) = Some f \<Longrightarrow>
   finish endTime endTimestamp ss options = (Inl (ValidationError (required_message f)), [])"
  by (auto simp add: finish_def first_missing_def Let_def split: if_splits option.splits)

lemma no_operation_missing: "first_missing (ss_span no_operation_started) = Some Operation_field"
  by (simp add: no_operation_started_def start_def SpanBuilder_new_def first_missing_def
        truthy_def Let_def)

text \<open>
  C6. When any of provider, model id, operation or tenant id is unset on a started span,
  \<open>finish\<close> throws the validation error of the first missing field in the order provider,
  model id, operation, tenant id; no span is returned and none is handed to the transport.
  Each field triggers its own error when the fields before it are present.
\<close>

theorem finish_rejects_missing_field:
  assumes "ps_provider (ss_span ss) = None \<or> ps_model_id (ss_span ss) = None
           \<or> ps_operation (ss_span ss) = None \<or> ps_tenant_id (ss_span ss) = None"
  shows "\<exists>f. first_missing (ss_span ss) = Some f
           \<and> finish endTime endTimestamp ss options
               = (Inl (ValidationError (required_message f)), [])
           \<and> (ps_provider (ss_span ss) = None \<longrightarrow> f = Provider_field)
           \<and> (ps_provider (ss_span ss) \<noteq> None \<and> ps_model_id (ss_span ss) = None
                \<longrightarrow> f = Model_id_field)
           \<and> (ps_provider (ss_span ss) \<noteq> None \<and> truthy (ps_model_id (ss_span ss))
                \<and> ps_operation (ss_span ss) = None \<longrightarrow> f = Operation_field)
           \<and> (ps_provider (ss_span ss) \<noteq> None \<and> truthy (ps_model_id (ss_span ss))
                \<and> truthy (ps_operation (ss_span ss)) \<and> ps_tenant_id (ss_span ss) = None
                \<longrightarrow> f = Tenant_id_field)"
proof -
  from assms have "first_missing (ss_span ss) \<noteq> None"
    by (auto simp add: first_missing_def truthy_None)
  then obtain f where f: "first_missing (ss_span ss) = Some f"
    by (cases "first_missing (ss_span ss)") auto
  have "ps_provider (ss_span ss) = None \<longrightarrow> f = Provider_field"
    using f by (auto simp add: first_missing_def split: if_splits)
  moreover have "ps_provider (ss_span ss) \<noteq> None \<and> ps_model_id (ss_span ss) = None
      \<longrightarrow> f = Model_id_field"
    using f by (auto simp add: first_missing_def truthy_def split: if_splits option.splits)
  moreover have "ps_provider (ss_span ss) \<noteq> None \<and> truthy (ps_model_id (ss_span ss))
      \<and> ps_operation (ss_span ss) = None \<longrightarrow> f = Operation_field"
    using f by (auto simp add: first_missing_def truthy_def split: if_splits option.splits)
  moreover have "ps_provider (ss_span ss) \<noteq> None \<and> truthy (ps_model_id (ss_span ss))
      \<and> truthy (ps_operation (ss_span ss)) \<and> ps_tenant_id (ss_span ss) = None
      \<longrightarrow> f = Tenant_id_field"
    using f by (auto simp add: first_missing_def truthy_def split: if_splits option.splits)
  ultimately show ?thesis
    using f finish_missing[OF f, of endTime endTimestamp options]
    by (intro exI[of _ f]) blast
qed

theorem finish_rejects_missing_field_witness:
  "ps_operation (ss_span no_operation_started) = None
   \<and> finish 1704067202500 ''2024-01-01T00:00:02.500Z'' no_operation_started example_options
       = (Inl (ValidationError ''SpanBuilder: operation is required''), [])"
proof -
  have h: "ps_operation (ss_span no_operation_started) = None"
    by (simp add: no_operation_started_def start_def SpanBuilder_new_def truthy_def Let_def)
  then have "ps_provider (ss_span no_operation_started) = None
      \<or> ps_model_id (ss_span no_operation_started) = None
      \<or> ps_operation (ss_span no_operation_started) = None
      \<or> ps_tenant_id (ss_span no_operation_started) = None" by simp
  from finish_rejects_missing_field[OF this, of 1704067202500 "''2024-01-01T00:00:02.500Z''" example_options]
  obtain f where "first_missing (ss_span no_operation_started) = Some f"
    and "finish 1704067202500 ''2024-01-01T00:00:02.500Z'' no_operation_started example_options
           = (Inl (ValidationError (required_message f)), [])"
    by blast
  then show ?thesis using h by (simp add: no_operation_missing)
qed

text \<open>Invariant of the builder: \<open>vendor\<close> is written only together with \<open>provider\<close>.\<close>

lemma vendor_invariant:
  "ps_vendor (sb_span b) = map_option provider_str (ps_provider (sb_span b)) \<Longrightarrow>
   ps_vendor (sb_span (apply_setter b s))
     = map_option provider_str (ps_provider (sb_span (apply_setter b s)))"
  by (cases s) simp_all

lemma vendor_built:
  "ps_vendor (sb_span b) = map_option provider_str (ps_provider (sb_span b)) \<Longrightarrow>
   ps_vendor (sb_span (foldl apply_setter b setters))
     = map_option provider_str (ps_provider (sb_span (foldl apply_setter b setters)))"
  by (induction setters arbitrary: b) (simp_all add: vendor_invariant)

lemma start_fields:
  "ps_vendor (ss_span (start now ts id1 id2 singleton b)) = ps_vendor (sb_span b)"
  "ps_provider (ss_span (start now ts id1 id2 singleton b)) = ps_provider (sb_span b)"
  "startTime (start now ts id1 id2 singleton b) = now"
  by (simp_all add: start_def Let_def split: option.splits)

lemma vendor_started:
  "ps_vendor (ss_span (start now ts id1 id2 singleton (foldl apply_setter SpanBuilder_new setters)))
     = map_option provider_str
         (ps_provider (ss_span (start now ts id1 id2 singleton
                                  (foldl apply_setter SpanBuilder_new setters))))"
  unfolding start_fields by (rule vendor_built) (simp add: SpanBuilder_new_def)

lemma finish_returns:
  assumes "fst (finish endTime endTimestamp ss options) = Inr s"
  shows "\<exists>prov. ps_provider (ss_span ss) = Some prov
           \<and> s = completeSpan endTime endTimestamp ss options prov
                   (case ps_model_id (ss_span ss) of Some m \<Rightarrow> m | None \<Rightarrow> [])"
proof (cases "ps_provider (ss_span ss)")
  case None
  with assms show ?thesis by (simp add: finish_def)
next
  case (Some prov)
  with assms show ?thesis
    by (auto simp add: finish_def Let_def split: if_splits option.splits sum.splits)
qed

lemma completeSpan_fields:
  "total_tokens (completeSpan e ts ss options prov mid) = Some (inputTokens options + outputTokens options)"
  "input_tokens (completeSpan e ts ss options prov mid) = inputTokens options"
  "output_tokens (completeSpan e ts ss options prov mid) = outputTokens options"
  "duration_ms (completeSpan e ts ss options prov mid) = e - startTime ss"
  "latency_ms (completeSpan e ts ss options prov mid) = Some (e - startTime ss)"
  "total_cost_usd (completeSpan e ts ss options prov mid)
     = Some (cost_usd (completeSpan e ts ss options prov mid))"
  "provider (completeSpan e ts ss options prov mid) = prov"
  "model_id (completeSpan e ts ss options prov mid) = mid"
  "cost_usd (completeSpan e ts ss options prov mid)
     = (case costUsd options of
          Some c \<Rightarrow> c
        | None \<Rightarrow> calculateCost prov mid (inputTokens options) (outputTokens options))"
  "vendor (completeSpan e ts ss options prov mid)
     = (case ps_vendor (ss_span ss) of Some v \<Rightarrow> Some v | None \<Rightarrow> Some (provider_str prov))"
  by (simp_all add: completeSpan_def Let_def)

lemma built_started_span:
  "ps_provider (ss_span built_started) = Some Openai"
  "ps_model_id (ss_span built_started) = Some ''gpt-4o''"
  "ps_operation (ss_span built_started) = Some ''chat_completion''"
  "ps_tenant_id (ss_span built_started) = Some ''tenant-1''"
  "ps_vendor (ss_span built_started) = Some ''openai''"
  "startTime built_started = 1704067201000"
  "ss_client built_started = None"
  by (simp_all add: built_started_def example_setters_def start_def SpanBuilder_new_def
        truthy_def Let_def)

lemma finish_built:
  "fst (finish 1704067202500 ''2024-01-01T00:00:02.500Z'' built_started example_options)
     = Inr (completeSpan 1704067202500 ''2024-01-01T00:00:02.500Z'' built_started example_options
              Openai ''gpt-4o'')"
  by (simp add: finish_def built_started_span truthy_def example_options_def)

lemma finish_direct:
  "fst (finish 1704067201000 ''2024-01-01T00:00:01.000Z'' direct_started example_options)
     = Inr (completeSpan 1704067201000 ''2024-01-01T00:00:01.000Z'' direct_started example_options
              Openai ''gpt-4o'')"
  by (simp add: finish_def direct_started_def truthy_def example_options_def SpanBuilder_new_def)

text \<open>
  C7, as stated, fails for a started span whose recorded start time lies after the clock
  reading at \<open>finish\<close> and whose \<open>vendor\<close> was set apart from its \<open>provider\<close>, as the
  exported constructor allows: the returned span has a negative duration and a \<open>vendor\<close>
  that is not its \<open>provider\<close>. (A system clock set back between \<open>start\<close> and \<open>finish\<close>
  gives the same negative duration, \<open>Date.now()\<close> not being monotonic.)
\<close>

theorem finish_direct_span_counterexample:
  "\<exists>s. fst (finish 1704067201000 ''2024-01-01T00:00:01.000Z'' direct_started example_options) = Inr s
      \<and> duration_ms s = - 1000 \<and> \<not> 0 \<le> duration_ms s
      \<and> provider s = Openai \<and> vendor s = Some ''azure''
      \<and> vendor s \<noteq> Some (provider_str (provider s))"
  unfolding finish_direct
  by (simp add: completeSpan_fields direct_started_def)

text \<open>
  C7, amended. Every span \<open>finish\<close> returns has \<open>total_tokens\<close> equal to the sum of its two
  token counts, a \<open>cost_usd\<close> (the override, else the calculated cost), \<open>latency_ms\<close> equal
  to \<open>duration_ms\<close> and \<open>total_cost_usd\<close> equal to \<open>cost_usd\<close>. Its \<open>duration_ms\<close> is the
  clock reading at \<open>finish\<close> minus the recorded start time, hence non-negative when the
  clock reading is not earlier than the start time; and \<open>vendor\<close> equals \<open>provider\<close> when
  the started span comes from \<open>SpanBuilder.start()\<close>.
\<close>

theorem finish_span_invariants:
  assumes "fst (finish endTime endTimestamp ss options) = Inr s"
  shows "total_tokens s = Some (input_tokens s + output_tokens s)
       \<and> duration_ms s = endTime - startTime ss
       \<and> (startTime ss \<le> endTime \<longrightarrow> 0 \<le> duration_ms s)
       \<and> latency_ms s = Some (duration_ms s)
       \<and> total_cost_usd s = Some (cost_usd s)
       \<and> cost_usd s = (case costUsd options of
                         Some c \<Rightarrow> c
                       | None \<Rightarrow> calculateCost (provider s) (model_id s)
                                   (inputTokens options) (outputTokens options))
       \<and> ((\<exists>now ts id1 id2 singleton setters.
              ss = start now ts id1 id2 singleton (foldl apply_setter SpanBuilder_new setters))
            \<longrightarrow> vendor s = Some (provider_str (provider s)))"
proof -
  from finish_returns[OF assms] obtain prov where
    prov: "ps_provider (ss_span ss) = Some prov" and
    s: "s = completeSpan endTime endTimestamp ss options prov
              (case ps_model_id (ss_span ss) of Some m \<Rightarrow> m | None \<Rightarrow> [])"
    by blast
  have a: "total_tokens s = Some (input_tokens s + output_tokens s)"
    unfolding s by (simp add: completeSpan_fields)
  have b: "duration_ms s = endTime - startTime ss"
    unfolding s by (simp add: completeSpan_fields)
  have c: "latency_ms s = Some (duration_ms s)"
    unfolding s by (simp add: completeSpan_fields)
  have d: "total_cost_usd s = Some (cost_usd s)"
    unfolding s by (simp add: completeSpan_fields)
  have e: "cost_usd s = (case costUsd options of
                         Some c \<Rightarrow> c
                       | None \<Rightarrow> calculateCost (provider s) (model_id s)
                                   (inputTokens options) (outputTokens options))"
    unfolding s by (cases "costUsd options") (simp_all add: completeSpan_fields)
  have f: "vendor s = Some (provider_str (provider s))"
    if "\<exists>now ts id1 id2 singleton setters.
          ss = start now ts id1 id2 singleton (foldl apply_setter SpanBuilder_new setters)"
  proof -
    from that obtain now ts id1 id2 singleton setters where
      ss: "ss = start now ts id1 id2 singleton (foldl apply_setter SpanBuilder_new setters)"
      by blast
    have "ps_vendor (ss_span ss) = map_option provider_str (ps_provider (ss_span ss))"
      unfolding ss by (rule vendor_started)
    with prov have "ps_vendor (ss_span ss) = Some (provider_str prov)" by simp
    then show ?thesis unfolding s by (simp add: completeSpan_fields)
  qed
  from a b c d e f show ?thesis by simp
qed

theorem finish_span_invariants_witness:
  "fst (finish 1704067202500 ''2024-01-01T00:00:02.500Z'' built_started example_options)
     = Inr (completeSpan 1704067202500 ''2024-01-01T00:00:02.500Z'' built_started example_options
              Openai ''gpt-4o'')
   \<and> startTime built_started \<le> 1704067202500
   \<and> built_started = start 1704067201000 ''2024-01-01T00:00:01.000Z'' ''0123456789abcdef0123456789abcdef''
       ''fedcba9876543210fedcba9876543210'' None (foldl apply_setter SpanBuilder_new example_setters)
   \<and> duration_ms (completeSpan 1704067202500 ''2024-01-01T00:00:02.500Z'' built_started example_options
                    Openai ''gpt-4o'') = 1500
   \<and> total_tokens (completeSpan 1704067202500 ''2024-01-01T00:00:02.500Z'' built_started example_options
                     Openai ''gpt-4o'') = Some 150
   \<and> vendor (completeSpan 1704067202500 ''2024-01-01T00:00:02.500Z'' built_started example_options
                Openai ''gpt-4o'') = Some ''openai''"
proof -
  let ?s = "completeSpan 1704067202500 ''2024-01-01T00:00:02.500Z'' built_started example_options
              Openai ''gpt-4o''"
  have t: "startTime built_started \<le> 1704067202500" by (simp add: built_started_span)
  have b: "\<exists>now ts id1 id2 singleton setters.
      built_started = start now ts id1 id2 singleton (foldl apply_setter SpanBuilder_new setters)"
    unfolding built_started_def by blast
  from finish_span_invariants[OF finish_built] t b
  have "duration_ms ?s = 1704067202500 - startTime built_started"
    and "total_tokens ?s = Some (input_tokens ?s + output_tokens ?s)"
    and "vendor ?s = Some (provider_str (provider ?s))"
    by blast+
  then show ?thesis using finish_built t
    by (simp add: built_started_span completeSpan_fields example_options_def built_started_def [symmetric])
qed

section \<open>TraceCapsule: rolling window, aggregates and hop indices\<close>

lemma appendHops_snoc:
  "appendHops num_add num_zero c (calls @ [nh])
     = appendHop num_add num_zero (appendHops num_add num_zero c calls) nh"
  by (simp add: appendHops_def)

lemma appendHops_Nil: "appendHops num_add num_zero c [] = c"
  by (simp add: appendHops_def)

text \<open>Pushing onto the window and shifting once keeps the most recent entries.\<close>

lemma window_step:
  "(let pushed = most_recent n xs @ [y] in if length pushed > n then tl pushed else pushed)
     = most_recent n (xs @ [y])"
proof (cases "length xs < n")
  case True
  then show ?thesis by (simp add: most_recent_def Let_def)
next
  case False
  show ?thesis
  proof (cases "n = 0")
    case True
    then show ?thesis by (simp add: most_recent_def Let_def)
  next
    case n: False
    define k where "k = length xs - n"
    from False n have k: "k < length xs" and sk: "Suc (length xs) - n = Suc k"
      by (simp_all add: k_def)
    from k have ne: "drop k xs \<noteq> []" by simp
    have len: "length (drop k xs @ [y]) > n" using False n by (simp add: k_def)
    have "tl (drop k xs @ [y]) = tl (drop k xs) @ [y]" using ne by (simp add: tl_append2)
    also have "\<dots> = drop (Suc k) xs @ [y]" by (simp add: drop_Suc tl_drop)
    also have "\<dots> = drop (Suc k) (xs @ [y])" using k by simp
    finally have "tl (drop k xs @ [y]) = drop (Suc k) (xs @ [y])" .
    with len show ?thesis
      by (simp add: most_recent_def Let_def k_def [symmetric] sk del: drop_append)
  qed
qed

lemma most_recent_id: "length xs \<le> n \<Longrightarrow> most_recent n xs = xs"
  by (simp add: most_recent_def)

lemma length_most_recent: "length (most_recent n xs) = min n (length xs)"
  by (simp add: most_recent_def)

lemma lastNHops_appendHop:
  "lastNHops (appendHop num_add num_zero c nh) =
     (let pushed = lastNHops c @ [(snd nh)\<lparr>hop_index := Some (length (lastNHops c))\<rparr>]
      in if length pushed > MAX_HOPS then tl pushed else pushed)"
  by (simp add: appendHop_def Let_def)

lemma unindexed_window:
  "length (lastNHops c) \<le> MAX_HOPS \<Longrightarrow>
   map unindexed (lastNHops (appendHops num_add num_zero c calls))
     = most_recent MAX_HOPS (map unindexed (lastNHops c) @ map (\<lambda>nh. unindexed (snd nh)) calls)"
proof (induction calls rule: rev_induct)
  case Nil
  then show ?case by (simp add: appendHops_Nil most_recent_id)
next
  case (snoc nh calls)
  let ?w = "lastNHops (appendHops num_add num_zero c calls)"
  let ?all = "map unindexed (lastNHops c) @ map (\<lambda>nh. unindexed (snd nh)) calls"
  have ih: "map unindexed ?w = most_recent MAX_HOPS ?all" using snoc by simp
  have u: "unindexed ((snd nh)\<lparr>hop_index := Some k\<rparr>) = unindexed (snd nh)" for k
    by (simp add: unindexed_def)
  have "map unindexed (lastNHops (appendHops num_add num_zero c (calls @ [nh])))
        = (let pushed = map unindexed ?w @ [unindexed (snd nh)]
           in if length pushed > MAX_HOPS then tl pushed else pushed)"
    by (simp add: appendHops_snoc lastNHops_appendHop Let_def map_tl u)
  also have "\<dots> = most_recent MAX_HOPS (?all @ [unindexed (snd nh)])"
    unfolding ih by (rule window_step)
  finally show ?case by simp
qed



lemma length_window:
  assumes "length (lastNHops c) \<le> MAX_HOPS"
  shows "length (lastNHops (appendHops num_add num_zero c calls))
           = min MAX_HOPS (length (lastNHops c) + length calls)"
proof -
  have "length (map unindexed (lastNHops (appendHops num_add num_zero c calls)))
        = min MAX_HOPS (length (lastNHops c) + length calls)"
    unfolding unindexed_window [OF assms] by (simp add: length_most_recent)
  then show ?thesis by simp
qed

lemma fresh_capsule_fields:
  "lastNHops fresh_capsule = []"
  "aggregateCostUsd fresh_capsule = 0"
  "aggregateLatencyMs fresh_capsule = 0"
  by (simp_all add: fresh_capsule_def TraceCapsule_new_def no_options_def)




lemma last_window_index:
  "hop_index (last (lastNHops (appendHop num_add num_zero c nh))) = Some (length (lastNHops c))"
  by (cases "lastNHops c") (simp_all add: lastNHops_appendHop Let_def MAX_HOPS_def last_tl)

lemma seven_calls_indices:
  "map hop_index (lastNHops (appendHops num_add num_zero fresh_capsule seven_calls))
     = [Some 2, Some 3, Some 4, Some 5, Some 5]"
  by (simp add: appendHops_def lastNHops_appendHop seven_calls_def fresh_capsule_fields
        MAX_HOPS_def Let_def)

text \<open>
  C9. \<open>appendHop\<close> is claimed to give the \<open>k\<close>-th appended hop the index \<open>k - 1\<close>. It
  assigns the length of the window before the push: after \<open>n\<close> earlier appends to a new
  capsule the next hop gets index \<open>min 5 n\<close>, so from the seventh hop on every hop gets
  index 5, and seven appends leave the indices 2, 3, 4, 5, 5.
\<close>

theorem appendHop_index_is_window_length:
  "hop_index (last (lastNHops
       (appendHops num_add num_zero (TraceCapsule_new num_zero now fresh1 fresh2 no_options)
          (calls @ [nh]))))
     = Some (min MAX_HOPS (length calls))
   \<and> map hop_index (lastNHops (appendHops (+) 0 fresh_capsule seven_calls))
       = [Some 2, Some 3, Some 4, Some 5, Some 5]"
proof -
  have "length (lastNHops (TraceCapsule_new num_zero now fresh1 fresh2 no_options)) \<le> MAX_HOPS"
    by (simp add: TraceCapsule_new_def no_options_def)
  from length_window [OF this, of num_add num_zero calls] show ?thesis
    by (simp add: appendHops_snoc last_window_index TraceCapsule_new_def no_options_def
          seven_calls_indices)
qed

section \<open>Router: candidate order, fallback and outcome reports\<close>

subsection \<open>The candidate list\<close>

lemma push_loop:
  "foldl (\<lambda>acc p. if model p \<noteq> m then acc @ [p] else acc) acc ps
     = acc @ filter (\<lambda>p. model p \<noteq> m) ps"
  by (induction ps arbitrary: acc) simp_all

lemma candidatePaths_eq:
  "candidatePaths ps m =
     (case find (\<lambda>p. model p = m) ps of
        Some sp \<Rightarrow> sp # filter (\<lambda>p. model p \<noteq> m) ps
      | None \<Rightarrow> ps)"
proof (cases "find (\<lambda>p. model p = m) ps")
  case None
  then have "\<forall>p\<in>set ps. model p \<noteq> m" by (simp add: find_None_iff)
  then have "filter (\<lambda>p. model p \<noteq> m) ps = ps" by (simp add: filter_id_conv)
  with None show ?thesis by (simp add: candidatePaths_def push_loop)
next
  case (Some sp)
  then show ?thesis by (simp add: candidatePaths_def push_loop)
qed

text \<open>With pairwise distinct models, dropping the selected model drops one path only.\<close>

lemma remove1_distinct_model:
  "distinct (map model ps) \<Longrightarrow> find (\<lambda>p. model p = m) ps = Some sp \<Longrightarrow>
   remove1 sp ps = filter (\<lambda>p. model p \<noteq> m) ps"
proof (induction ps)
  case Nil
  then show ?case by simp
next
  case (Cons a ps)
  show ?case
  proof (cases "model a = m")
    case True
    with Cons.prems have sp: "sp = a" by simp
    have "\<forall>p\<in>set ps. model p \<noteq> m"
    proof
      fix p assume "p \<in> set ps"
      then have "model p \<in> set (map model ps)" by simp
      moreover from Cons.prems(1) have "model a \<notin> set (map model ps)" by simp
      ultimately show "model p \<noteq> m" using True by metis
    qed
    then have "filter (\<lambda>p. model p \<noteq> m) ps = ps" by (simp add: filter_id_conv)
    with True sp show ?thesis by simp
  next
    case False
    with Cons.prems have f: "find (\<lambda>p. model p = m) ps = Some sp" by simp
    then have "model sp = m" by (auto simp: find_Some_iff)
    with False have "a \<noteq> sp" by auto
    with Cons False f show ?thesis by simp
  qed
qed

lemma candidates_nonempty: "ps \<noteq> [] \<Longrightarrow> candidatePaths ps m \<noteq> []"
  by (simp add: candidatePaths_eq split: option.splits)

text \<open>
  C1, as stated, fails when two configured paths share the selected model: the loop skips
  every path with that model, not only the one placed first.
\<close>

theorem candidatePaths_same_model_counterexample:
  "candidatePaths same_model_paths ''gpt-4o'' \<noteq> spec_candidates same_model_paths ''gpt-4o''
   \<and> length (candidatePaths same_model_paths ''gpt-4o'') = 1
   \<and> length (spec_candidates same_model_paths ''gpt-4o'') = 2"
  by (simp add: candidatePaths_def spec_candidates_def same_model_paths_def)

text \<open>
  C1, amended. The candidate list is the first configured path whose model is the decided
  (or forced) model, when there is one, followed by every configured path with a different
  model, in configuration order; with no such path it is the configured list. When the
  configured models are pairwise distinct this is the selected path followed by all
  remaining paths. With paths \<open>gpt-4o\<close>, \<open>claude-3-sonnet\<close> and the decision
  \<open>claude-3-sonnet\<close> the order is \<open>claude-3-sonnet\<close>, \<open>gpt-4o\<close>.
\<close>

theorem candidatePaths_selected_first:
  "candidatePaths ps m =
     (case find (\<lambda>p. model p = m) ps of
        Some sp \<Rightarrow> sp # filter (\<lambda>p. model p \<noteq> m) ps
      | None \<Rightarrow> ps)
   \<and> (distinct (map model ps) \<longrightarrow> candidatePaths ps m = spec_candidates ps m)
   \<and> map model (candidatePaths
                  (map normalizePath [ModelName ''gpt-4o'', ModelName ''claude-3-sonnet''])
                  ''claude-3-sonnet'')
       = [''claude-3-sonnet'', ''gpt-4o'']"
proof (intro conjI impI)
  show "candidatePaths ps m =
     (case find (\<lambda>p. model p = m) ps of
        Some sp \<Rightarrow> sp # filter (\<lambda>p. model p \<noteq> m) ps
      | None \<Rightarrow> ps)" by (rule candidatePaths_eq)
next
  assume "distinct (map model ps)"
  then show "candidatePaths ps m = spec_candidates ps m"
    by (simp add: candidatePaths_eq spec_candidates_def remove1_distinct_model
          split: option.splits)
next
  show "map model (candidatePaths
                  (map normalizePath [ModelName ''gpt-4o'', ModelName ''claude-3-sonnet''])
                  ''claude-3-sonnet'')
       = [''claude-3-sonnet'', ''gpt-4o'']"
    by (simp add: candidatePaths_def)
qed

theorem candidatePaths_selected_first_witness:
  "distinct (map model example_paths)
   \<and> candidatePaths example_paths ''claude-3-sonnet''
       = spec_candidates example_paths ''claude-3-sonnet''"
proof -
  have d: "distinct (map model example_paths)" by (simp add: example_paths_def)
  from candidatePaths_selected_first [of example_paths "''claude-3-sonnet''"] d
  show ?thesis by blast
qed

subsection \<open>The fallback loop\<close>

lemma fallback_all_fail:
  "cands \<noteq> [] \<Longrightarrow>
   \<forall>j<length cands. attempt env (i + j) (cands ! j) = Inl (errs (i + j)) \<Longrightarrow>
   fst (fallback env i cands le w) = (Some (errs (i + length cands - 1)), None)"
proof (induction cands arbitrary: i le w)
  case Nil
  then show ?case by simp
next
  case (Cons c cs)
  from Cons.prems(2) have h: "attempt env i c = Inl (errs i)" by force
  show ?case
  proof (cases "cs = []")
    case True
    with h show ?thesis by simp
  next
    case False
    have "\<forall>j<length cs. attempt env (Suc i + j) (cs ! j) = Inl (errs (Suc i + j))"
    proof (intro allI impI)
      fix j assume "j < length cs"
      then have "Suc j < length (c # cs)" by simp
      from Cons.prems(2)[rule_format, OF this]
      show "attempt env (Suc i + j) (cs ! j) = Inl (errs (Suc i + j))"
        by simp
    qed
    from Cons.IH[OF False this] h show ?thesis by simp
  qed
qed

text \<open>With a configured path, selecting a model never throws.\<close>

lemma selectModel_total:
  "ps \<noteq> [] \<Longrightarrow> \<exists>d m. selectModel env options ps = Inr (d, m)"
  by (cases ps) (auto simp: selectModel_def split: sum.splits)

lemma paths_decision [simp]:
  "paths (case d of Some x \<Rightarrow> r\<lparr>lastDecision := Some x\<rparr> | None \<Rightarrow> r) = paths r"
  by (cases d) simp_all

lemma reported_decision [simp]:
  "outcomeReported (case d of Some x \<Rightarrow> r\<lparr>lastDecision := Some x\<rparr> | None \<Rightarrow> r)
     = outcomeReported r"
  by (cases d) simp_all

lemma cands_example:
  "candidatePaths example_paths ''claude-3-sonnet''
     = [\<lparr>model = ''claude-3-sonnet'', tools = None, params = None\<rparr>,
        \<lparr>model = ''gpt-4o'', tools = None, params = None\<rparr>]"
  by (simp add: candidatePaths_def example_paths_def)

lemma detect_examples:
  "detectProvider ''claude-3-sonnet'' = Inr anthropic" "detectProvider ''gpt-4o'' = Inr openai"
  by code_simp+

text \<open>
  C2. In a completion call on a router with a configured path, where \<open>m\<close> is the selected
  model and the attempt on every candidate fails, \<open>completion\<close> throws the error of the
  last candidate attempted and returns no response.
\<close>

theorem completion_raises_last_error:
  assumes "paths (fst w) \<noteq> []"
    and "selectModel env options (paths (fst w)) = Inr (d, m)"
    and "cands = candidatePaths (paths (fst w)) m"
    and "\<forall>j<length cands. attempt env j (cands ! j) = Inl (errs j)"
  shows "cands \<noteq> [] \<and> fst (completion env options w) = Inl (errs (length cands - 1))"
proof -
  from assms(1,3) have ne: "cands \<noteq> []" by (simp add: candidates_nonempty)
  from assms(4) have "\<forall>j<length cands. attempt env (0 + j) (cands ! j) = Inl (errs (0 + j))"
    by simp
  from fallback_all_fail[OF ne this]
  have fb: "fst (fallback env 0 cands None w') = (Some (errs (length cands - 1)), None)" for w'
    by simp
  define r0 where "r0 = (fst w)\<lparr>outcomeReported := False,
                       lastTraceId := Some (if truthy (getTraceId env)
                                            then (case getTraceId env of Some t \<Rightarrow> t | None \<Rightarrow> [])
                                            else newTraceId env)\<rparr>"
  define r1 where "r1 = (case d of Some x \<Rightarrow> r0\<lparr>lastDecision := Some x\<rparr> | None \<Rightarrow> r0)"
  have p0: "paths r0 = paths (fst w)" by (simp add: r0_def)
  have p1: "paths r1 = paths (fst w)" by (simp add: r1_def p0)
  obtain w2 where
    f: "fallback env 0 cands None (r1, snd w) = ((Some (errs (length cands - 1)), None), w2)"
    using fb[of "(r1, snd w)"] by (cases "fallback env 0 cands None (r1, snd w)") auto
  have "completion env options w = (Inl (errs (length cands - 1)), w2)"
    unfolding completion_def Let_def r0_def[symmetric]
    by (simp add: p0 assms(2) r1_def[symmetric] p1 assms(3)[symmetric] f)
  with ne show ?thesis by simp
qed

theorem completion_raises_last_error_witness:
  "paths (fst (example_router, [])) \<noteq> []
   \<and> selectModel env_all_fail no_force (paths (fst (example_router, [])))
       = Inr (Some example_decision, ''claude-3-sonnet'')
   \<and> fst (completion env_all_fail no_force (example_router, [])) = Inl (JsError ''gpt-4o'')"
proof -
  let ?w = "(example_router, []) :: World"
  let ?cands = "candidatePaths example_paths ''claude-3-sonnet''"
  let ?errs = "\<lambda>j::nat. JsError (model (?cands ! j))"
  have p: "paths (fst ?w) \<noteq> []" by (simp add: example_router_def example_paths_def)
  have s: "selectModel env_all_fail no_force (paths (fst ?w))
      = Inr (Some example_decision, ''claude-3-sonnet'')"
    by (simp add: selectModel_def env_all_fail_def no_force_def truthy_def example_decision_def)
  have c: "?cands = candidatePaths (paths (fst ?w)) ''claude-3-sonnet''"
    by (simp add: example_router_def)
  have f: "\<forall>j<length ?cands. attempt env_all_fail j (?cands ! j) = Inl (?errs j)"
    unfolding cands_example
    by (simp add: attempt_def detect_examples env_all_fail_def less_Suc_eq)
  from completion_raises_last_error[OF p s c f] p s show ?thesis
    by (simp add: cands_example)
qed

subsection \<open>Outcome reports\<close>

lemma report_noop_reported: "outcomeReported (fst w) \<Longrightarrow> report env success reason score w = w"
  by (simp add: report_def Let_def)

lemma report_noop_no_trace:
  "\<not> truthy (lastTraceId (fst w)) \<Longrightarrow> \<not> truthy (getTraceId env) \<Longrightarrow>
   report env success reason score w = w"
  by (simp add: report_def Let_def)

lemma report_submits:
  "\<not> outcomeReported (fst w) \<Longrightarrow> truthy (lastTraceId (fst w)) \<or> truthy (getTraceId env) \<Longrightarrow>
   report env success reason score w =
     (let call = report_call env (fst w) success reason score;
          ok = reportOutcome env (length (snd w)) call
      in (if ok then (fst w)\<lparr>outcomeReported := True\<rparr> else fst w, snd w @ [(call, ok)]))"
  by (auto simp add: report_def Let_def report_call_def)

text \<open>
  C3. Once an outcome has been reported, \<open>report\<close> changes nothing and submits nothing;
  likewise when neither the last completion nor the ambient context gives a trace id.
  So when the first of two \<open>report\<close> calls after a completion is accepted, the two calls
  together add exactly one submission to the log.
\<close>

theorem report_idempotent:
  "(outcomeReported (fst w) \<longrightarrow> report env success reason score w = w)
   \<and> (\<not> truthy (lastTraceId (fst w)) \<and> \<not> truthy (getTraceId env)
        \<longrightarrow> report env success reason score w = w)
   \<and> (\<not> outcomeReported (fst w) \<and> (truthy (lastTraceId (fst w)) \<or> truthy (getTraceId env))
        \<and> reportOutcome env (length (snd w)) (report_call env (fst w) success reason score)
        \<longrightarrow> snd (report env success2 reason2 score2 (report env success reason score w))
              = snd w @ [(report_call env (fst w) success reason score, True)])"
proof (intro conjI impI)
  assume "outcomeReported (fst w)"
  then show "report env success reason score w = w" by (rule report_noop_reported)
next
  assume "\<not> truthy (lastTraceId (fst w)) \<and> \<not> truthy (getTraceId env)"
  then show "report env success reason score w = w" by (simp add: report_noop_no_trace)
next
  assume a: "\<not> outcomeReported (fst w) \<and> (truthy (lastTraceId (fst w)) \<or> truthy (getTraceId env))
        \<and> reportOutcome env (length (snd w)) (report_call env (fst w) success reason score)"
  then have first: "report env success reason score w
      = ((fst w)\<lparr>outcomeReported := True\<rparr>,
         snd w @ [(report_call env (fst w) success reason score, True)])"
    by (simp add: report_submits Let_def)
  show "snd (report env success2 reason2 score2 (report env success reason score w))
              = snd w @ [(report_call env (fst w) success reason score, True)]"
    unfolding first by (simp add: report_noop_reported)
qed

theorem report_idempotent_witness:
  "outcomeReported (fst reported_world)
   \<and> report env_all_fail True None None reported_world = reported_world
   \<and> \<not> truthy (lastTraceId (fst fresh_world)) \<and> \<not> truthy (getTraceId env_all_fail)
   \<and> report env_all_fail True None None fresh_world = fresh_world
   \<and> \<not> outcomeReported (fst completed_world) \<and> truthy (lastTraceId (fst completed_world))
   \<and> reportOutcome env_all_fail (length (snd completed_world))
        (report_call env_all_fail (fst completed_world) True None None)
   \<and> length (snd (report env_all_fail False (Some ''late'') None
                    (report env_all_fail True None None completed_world))) = 1"
  using report_idempotent[of reported_world env_all_fail True None None]
        report_idempotent[of fresh_world env_all_fail True None None]
        report_idempotent[of completed_world env_all_fail True None None False "Some ''late''" None]
  by (simp add: reported_world_def fresh_world_def completed_world_def example_router_def
        env_all_fail_def truthy_def)

subsection \<open>Failure reports and the automatic evaluation\<close>

lemma reportFailure_calls:
  "\<exists>new. snd (reportFailure env ''provider_error'' msg w) = snd w @ new
     \<and> list_all failure_call new
     \<and> (outcomeReported (fst (reportFailure env ''provider_error'' msg w))
          = (outcomeReported (fst w) \<or> (\<exists>c. (c, True) \<in> set new)))"
proof (cases "outcomeReported (fst w) \<or> \<not> truthy (lastTraceId (fst w))")
  case True
  then have "reportFailure env ''provider_error'' msg w = w"
    by (simp add: reportFailure_def Let_def)
  then show ?thesis by (intro exI[of _ "[]"]) simp
next
  case False
  then show ?thesis
    by (auto simp add: reportFailure_def Let_def failure_call_def)
qed

text \<open>
  The loop only adds failure calls to the log, and the flag is set at its end exactly when
  it was set before or one of these calls was accepted.
\<close>

lemma fallback_calls:
  "\<exists>new. snd (snd (fallback env i cands le w)) = snd w @ new
     \<and> list_all failure_call new
     \<and> (outcomeReported (fst (snd (fallback env i cands le w)))
          = (outcomeReported (fst w) \<or> (\<exists>c. (c, True) \<in> set new)))"
proof (induction cands arbitrary: i le w)
  case Nil
  show ?case by (intro exI[of _ "[]"]) simp
next
  case (Cons c cs)
  show ?case
  proof (cases "attempt env i c")
    case (Inr resp)
    then show ?thesis by (intro exI[of _ "[]"]) simp
  next
    case (Inl err)
    let ?w1 = "reportFailure env ''provider_error'' (message err) w"
    obtain n1 where n1: "snd ?w1 = snd w @ n1" "list_all failure_call n1"
      "outcomeReported (fst ?w1) = (outcomeReported (fst w) \<or> (\<exists>c. (c, True) \<in> set n1))"
      using reportFailure_calls[of env "message err" w] by blast
    obtain n2 where n2: "snd (snd (fallback env (Suc i) cs (Some err) ?w1)) = snd ?w1 @ n2"
      "list_all failure_call n2"
      "outcomeReported (fst (snd (fallback env (Suc i) cs (Some err) ?w1)))
         = (outcomeReported (fst ?w1) \<or> (\<exists>c. (c, True) \<in> set n2))"
      using Cons.IH[of "Suc i" "Some err" ?w1] by blast
    show ?thesis
      using Inl n1 n2 by (intro exI[of _ "n1 @ n2"]) auto
  qed
qed

lemma report_calls:
  "\<exists>new. snd (report env success reason score w) = snd w @ new
     \<and> (\<forall>cb\<in>set new. oc_error_type (fst cb) = None)"
proof (cases "outcomeReported (fst w)
    \<or> \<not> truthy (if truthy (lastTraceId (fst w)) then lastTraceId (fst w) else getTraceId env)")
  case True
  then have "report env success reason score w = w" by (auto simp add: report_def Let_def)
  then show ?thesis by (intro exI[of _ "[]"]) simp
next
  case False
  then show ?thesis by (auto simp add: report_def Let_def)
qed

text \<open>
  C10. In a completion call that returns a response after the failure of an earlier
  candidate was reported and accepted, every outcome call the completion made is a failure
  call of the loop and the flag is set: the evaluation by \<open>successWhen\<close> is skipped and no
  success is reported.
\<close>

theorem fallback_success_not_auto_reported:
  assumes ok: "fst (completion env options w) = Inr response"
    and acc: "(c, True) \<in> set (new_calls w (snd (completion env options w)))"
    and fail: "oc_error_type c = Some ''provider_error''"
  shows "list_all failure_call (new_calls w (snd (completion env options w)))
         \<and> outcomeReported (fst (snd (completion env options w)))"
proof -
  define r0 where "r0 = (fst w)\<lparr>outcomeReported := False,
                       lastTraceId := Some (if truthy (getTraceId env)
                                            then (case getTraceId env of Some t \<Rightarrow> t | None \<Rightarrow> [])
                                            else newTraceId env)\<rparr>"
  have nr0: "\<not> outcomeReported r0" by (simp add: r0_def)
  have unf: "completion env options w =
      (case selectModel env options (paths r0) of
           Inl e \<Rightarrow> (Inl e, (r0, snd w))
         | Inr (decision, selectedModel) \<Rightarrow>
             (let r1 = (case decision of Some d \<Rightarrow> r0\<lparr>lastDecision := Some d\<rparr> | None \<Rightarrow> r0) in
              case fallback env 0 (candidatePaths (paths r1) selectedModel) None (r1, snd w) of
                ((lastError, None), w2) \<Rightarrow>
                  (Inl (case lastError of Some e \<Rightarrow> e | None \<Rightarrow> JsError ''All paths failed''), w2)
              | ((lastError, Some response), w2) \<Rightarrow>
                  (case successWhen (fst w2) of
                     None \<Rightarrow> (Inr response, w2)
                   | Some pred \<Rightarrow>
                       if outcomeReported (fst w2) then (Inr response, w2)
                       else
                         (let output = (case choices response of [] \<Rightarrow> [] | c # _ \<Rightarrow> content c);
                              success = pred output
                          in (Inr response,
                              report env success
                                (if success then None
                                 else Some ''Output did not meet success criteria'')
                                None w2)))))"
    unfolding completion_def Let_def r0_def[symmetric] by (rule refl)
  show ?thesis
  proof (cases "selectModel env options (paths r0)")
    case (Inl e)
    with ok unf show ?thesis by simp
  next
    case (Inr dm)
    obtain d m where dm: "dm = (d, m)" by (cases dm)
    define r1 where "r1 = (case d of Some x \<Rightarrow> r0\<lparr>lastDecision := Some x\<rparr> | None \<Rightarrow> r0)"
    have nr1: "\<not> outcomeReported r1" using nr0 by (simp add: r1_def)
    define fb where "fb = fallback env 0 (candidatePaths (paths r0) m) None (r1, snd w)"
    obtain le resp w2 where fbv: "fb = ((le, resp), w2)" by (cases fb) auto
    obtain new where new: "snd w2 = snd w @ new" "list_all failure_call new"
      "outcomeReported (fst w2) = (\<exists>c. (c, True) \<in> set new)"
      using fallback_calls[of env 0 "candidatePaths (paths r0) m" None "(r1, snd w)"] nr1
      unfolding fb_def[symmetric] fbv by auto
    have unf2: "completion env options w =
       (case resp of None \<Rightarrow> (Inl (case le of Some e \<Rightarrow> e | None \<Rightarrow> JsError ''All paths failed''), w2)
        | Some response \<Rightarrow>
           (case successWhen (fst w2) of
                     None \<Rightarrow> (Inr response, w2)
                   | Some pred \<Rightarrow>
                       if outcomeReported (fst w2) then (Inr response, w2)
                       else
                         (let output = (case choices response of [] \<Rightarrow> [] | c # _ \<Rightarrow> content c);
                              success = pred output
                          in (Inr response,
                              report env success
                                (if success then None
                                 else Some ''Output did not meet success criteria'')
                                None w2))))"
      unfolding unf Inr dm by (simp add: Let_def r1_def[symmetric] fb_def[symmetric] fbv split: option.splits)
    show ?thesis
    proof (cases resp)
      case None
      with ok unf2 show ?thesis by simp
    next
      case (Some rsp)
      have direct: "snd (completion env options w) = w2 \<Longrightarrow> ?thesis"
      proof -
        assume e: "snd (completion env options w) = w2"
        then have nc: "new_calls w (snd (completion env options w)) = new"
          by (simp add: new_calls_def new(1))
        with acc have "outcomeReported (fst w2)" using new(3) by auto
        with nc new(2) e show ?thesis by simp
      qed
      show ?thesis
      proof (cases "successWhen (fst w2)")
        case None
        with Some unf2 have "snd (completion env options w) = w2" by simp
        then show ?thesis by (rule direct)
      next
        case (Some pred)
        show ?thesis
        proof (cases "outcomeReported (fst w2)")
          case True
          with Some \<open>resp = Some rsp\<close> unf2 have "snd (completion env options w) = w2" by simp
          then show ?thesis by (rule direct)
        next
          case False
          define w3 where "w3 = report env (pred (case choices rsp of [] \<Rightarrow> [] | c # _ \<Rightarrow> content c))
              (if pred (case choices rsp of [] \<Rightarrow> [] | c # _ \<Rightarrow> content c) then None
               else Some ''Output did not meet success criteria'') None w2"
          have s3: "snd (completion env options w) = w3"
            using Some \<open>resp = Some rsp\<close> unf2 False by (simp add: Let_def w3_def)
          obtain extra where extra: "snd w3 = snd w2 @ extra" "\<forall>cb\<in>set extra. oc_error_type (fst cb) = None"
            unfolding w3_def using report_calls by blast
          have "new_calls w w3 = new @ extra" by (simp add: new_calls_def extra(1) new(1))
          with acc s3 have "(c, True) \<in> set new \<or> (c, True) \<in> set extra" by auto
          with extra(2) fail have "(c, True) \<in> set new" by force
          with new(3) False show ?thesis by auto
        qed
      qed
    qed
  qed
qed

lemma completion_first_fails_result:
  "fst (completion env_first_fails no_force (example_router, [])) = Inr example_response"
  by code_simp

lemma completion_first_fails_calls:
  "snd (snd (completion env_first_fails no_force (example_router, [])))
     = [(example_failure_call, True)]"
  by code_simp

theorem fallback_success_not_auto_reported_witness:
  "fst (completion env_first_fails no_force (example_router, [])) = Inr example_response
   \<and> (example_failure_call, True)
        \<in> set (new_calls (example_router, [])
                 (snd (completion env_first_fails no_force (example_router, []))))
   \<and> oc_error_type example_failure_call = Some ''provider_error''
   \<and> list_all failure_call
        (new_calls (example_router, [])
           (snd (completion env_first_fails no_force (example_router, []))))
   \<and> outcomeReported (fst (snd (completion env_first_fails no_force (example_router, []))))"
proof -
  have a: "(example_failure_call, True)
        \<in> set (new_calls (example_router, [])
                 (snd (completion env_first_fails no_force (example_router, []))))"
    by (simp add: new_calls_def completion_first_fails_calls)
  have b: "oc_error_type example_failure_call = Some ''provider_error''"
    by (simp add: example_failure_call_def)
  from fallback_success_not_auto_reported[OF completion_first_fails_result a b]
    completion_first_fails_result a b show ?thesis by simp
qed

end
